theory Spec2Isabelle
  imports Complex_Main "HOL-Library.Sublist"
begin

section \<open>JavaScript strings\<close>

text \<open>
  A JavaScript string is a sequence of UTF-16 code units. The model uses \<^typ>\<open>string\<close>:
  one \<^typ>\<open>char\<close> is one code unit in the range 0..255 (Latin-1), so \<open>length\<close> is the
  \<^verbatim>\<open>.length\<close> of the source. Positions that the source may take below zero
  (\<^verbatim>\<open>start\<close>, \<^verbatim>\<open>lastIndexOf\<close>) are \<^typ>\<open>int\<close>.
\<close>

definition isWhiteSpace :: "char \<Rightarrow> bool" where
  "isWhiteSpace c = (of_char c \<in> {9, 10, 11, 12, 13, 32, 160 :: nat})"

text \<open>\<^verbatim>\<open>String.prototype.trim\<close>: white space and line terminators go from both ends.\<close>

definition trim :: "string \<Rightarrow> string" where
  "trim s = rev (dropWhile isWhiteSpace (rev (dropWhile isWhiteSpace s)))"

text \<open>\<^verbatim>\<open>s.slice(start, fin)\<close>: a negative position counts from the end of the string.\<close>

definition slice :: "string \<Rightarrow> int \<Rightarrow> int \<Rightarrow> string" where
  "slice s start fin =
     (let len = int (length s);
          from = (if start < 0 then max (len + start) 0 else min start len);
          to = (if fin < 0 then max (len + fin) 0 else min fin len)
      in take (nat (to - from)) (drop (nat from) s))"

text \<open>\<^verbatim>\<open>s.lastIndexOf(pat)\<close>: the greatest position where \<open>pat\<close> starts, or \<open>-1\<close>.\<close>

fun lastIndexFrom :: "string \<Rightarrow> string \<Rightarrow> nat \<Rightarrow> int" where
  "lastIndexFrom s pat 0 = (if prefix pat s then 0 else - 1)"
| "lastIndexFrom s pat (Suc i) =
     (if prefix pat (drop (Suc i) s) then int (Suc i) else lastIndexFrom s pat i)"

definition lastIndexOf :: "string \<Rightarrow> string \<Rightarrow> int" where
  "lastIndexOf s pat =
     (if length s < length pat then - 1 else lastIndexFrom s pat (length s - length pat))"

text \<open>\<^verbatim>\<open>s.includes(pat)\<close>: \<open>pat\<close> occurs in \<open>s\<close> as a contiguous substring.\<close>

fun includesStr :: "string \<Rightarrow> string \<Rightarrow> bool" where
  "includesStr [] pat = (pat = [])"
| "includesStr (c # cs) pat = (prefix pat (c # cs) \<or> includesStr cs pat)"

text \<open>\<^verbatim>\<open>s.toLowerCase()\<close> on code units below 256: A-Z and the accented capitals
  U+00C0..U+00DE (without the multiplication sign U+00D7) move up by 32. These code units
  have bit 5 clear, so adding 32 sets that bit.\<close>

fun toLowerChar :: "char \<Rightarrow> char" where
  "toLowerChar (Char b0 b1 b2 b3 b4 b5 b6 b7) =
     (let n = (of_char (Char b0 b1 b2 b3 b4 b5 b6 b7) :: nat)
      in if (65 \<le> n \<and> n \<le> 90) \<or> (192 \<le> n \<and> n \<le> 222 \<and> n \<noteq> 215)
         then Char b0 b1 b2 b3 b4 True b6 b7 else Char b0 b1 b2 b3 b4 b5 b6 b7)"

definition toLowerCase :: "string \<Rightarrow> string" where
  "toLowerCase s = map toLowerChar s"

text \<open>\<^verbatim>\<open>s.split(d)\<close> for a one-character separator: the pieces between the
  separators, empty pieces included; the empty string gives one empty piece.\<close>

fun split :: "char \<Rightarrow> string \<Rightarrow> string list" where
  "split d [] = [[]]"
| "split d (c # cs) =
     (if c = d then [] # split d cs
      else (case split d cs of [] \<Rightarrow> [[c]] | w # ws \<Rightarrow> (c # w) # ws))"

section \<open>JavaScript numbers\<close>

text \<open>
  A JavaScript number is an IEEE 754 binary64 value. The model keeps the real number a
  finite double stands for; \<open>double x\<close> is the double nearest to the real \<open>x\<close>, ties going
  to the even significand, which is the result of every arithmetic operation of the source
  on its exact result and of every decimal literal. Only the normal range is modelled (no
  overflow, no subnormal numbers): the numbers of this program are sizes, ratios of word
  counts and hundredths.
\<close>

fun bitLength :: "nat \<Rightarrow> nat" where
  "bitLength n = (if n = 0 then 0 else Suc (bitLength (n div 2)))"

declare bitLength.simps [simp del]

text \<open>For \<open>x > 0\<close>, the exponent \<open>e\<close> with \<open>2^e \<le> x < 2^(e+1)\<close>.\<close>

definition binaryExponent :: "real \<Rightarrow> int" where
  "binaryExponent x =
     (if 1 \<le> x then int (bitLength (nat \<lfloor>x\<rfloor>)) - 1
      else - int (bitLength (nat (\<lceil>1 / x\<rceil> - 1))))"

definition pow2 :: "int \<Rightarrow> real" where
  "pow2 e = (if 0 \<le> e then 2 ^ nat e else 1 / 2 ^ nat (- e))"

definition roundTiesToEven :: "real \<Rightarrow> int" where
  "roundTiesToEven x =
     (let f = \<lfloor>x\<rfloor>
      in if x - of_int f < 1 / 2 then f
         else if x - of_int f > 1 / 2 then f + 1
         else if even f then f else f + 1)"

text \<open>The significand has 53 bits: \<open>x\<close> is scaled into \<open>[2^52, 2^53)\<close>, rounded to an
  integer and scaled back.\<close>

definition double :: "real \<Rightarrow> real" where
  "double x =
     (if x = 0 then 0
      else (let e = binaryExponent \<bar>x\<bar> - 52
            in sgn x * of_int (roundTiesToEven (\<bar>x\<bar> / pow2 e)) * pow2 e))"

text \<open>\<^verbatim>\<open>Math.round\<close>: the nearest integer, a half going upwards; exact on a double.\<close>

definition mathRound :: "real \<Rightarrow> int" where
  "mathRound x = \<lfloor>x + 1 / 2\<rfloor>"

section \<open>Chunker\<close>

record chunk =
  chunkText :: string
  chunkIndex :: nat

text \<open>
  One pass through the body of the \<^verbatim>\<open>while\<close> loop of \<^verbatim>\<open>chunkDocument\<close>:
  the chunk cut at \<open>start\<close>. The product \<^verbatim>\<open>chunkSize * 0.7\<close> is a product of doubles.
\<close>

definition cutChunk :: "string \<Rightarrow> nat \<Rightarrow> int \<Rightarrow> string" where
  "cutChunk txt chunkSize start =
     (let fin = min (start + int chunkSize) (int (length txt));
          chunk = trim (slice txt start fin)
      in if fin < int (length txt) then
           (let sentenceEnd = lastIndexOf chunk ''. '';
                paragraphEnd = lastIndexOf chunk [CHR 0x0A];
                breakPoint = max sentenceEnd paragraphEnd
            in if real_of_int breakPoint > double (real chunkSize * double 0.7)
               then trim (slice chunk 0 (breakPoint + 1)) else chunk)
         else chunk)"

text \<open>
  The loop itself. It has no bound in the source, so the model is a partial function:
  \<open>None\<close> is a loop that never returns.
\<close>

partial_function (option) chunkLoop ::
  "string \<Rightarrow> nat \<Rightarrow> nat \<Rightarrow> int \<Rightarrow> nat \<Rightarrow> chunk list \<Rightarrow> chunk list option" where
  "chunkLoop txt chunkSize overlap start index chunks =
     (if start < int (length txt) then
        (let chunk = cutChunk txt chunkSize start;
             chunks' = (if length chunk > 0
                        then chunks @ [\<lparr>chunkText = chunk, chunkIndex = index\<rparr>] else chunks);
             index' = (if length chunk > 0 then index + 1 else index);
             start' = start + int (length chunk) - int overlap
         in if start' \<ge> int (length txt) then Some chunks'
            else chunkLoop txt chunkSize overlap start' index' chunks')
      else Some chunks)"

definition chunkDocument :: "string \<Rightarrow> nat \<Rightarrow> nat \<Rightarrow> chunk list option" where
  "chunkDocument txt chunkSize overlap =
     (if length txt \<le> chunkSize then Some [\<lparr>chunkText = trim txt, chunkIndex = 0\<rparr>]
      else chunkLoop txt chunkSize overlap 0 0 [])"

section \<open>Embedder\<close>

text \<open>
  The integer arithmetic of \<^verbatim>\<open>simpleHash\<close> stays far below \<open>2^53\<close> and is exact in
  doubles, so it is modelled over \<^typ>\<open>int\<close>; \<open>toInt32\<close> is the conversion that
  \<^verbatim>\<open><<\<close> and \<^verbatim>\<open>&\<close> apply to their operands. The language leaves the
  precision of \<^verbatim>\<open>Math.sin\<close> and \<^verbatim>\<open>Math.cos\<close> to the implementation, so the embedding
  and the cosine similarity are modelled over the ideal reals: \<open>sin\<close> and \<open>cos\<close> stand for
  the values that the two functions approximate.
\<close>

definition toInt32 :: "int \<Rightarrow> int" where
  "toInt32 x = (x + 2 ^ 31) mod 2 ^ 32 - 2 ^ 31"

definition charCodeAt :: "char \<Rightarrow> int" where
  "charCodeAt c = int (of_char c)"

text \<open>One pass of the loop of \<^verbatim>\<open>simpleHash\<close>:
  \<^verbatim>\<open>hash = ((hash << 5) - hash) + char; hash = hash & hash\<close>.\<close>

definition hashStep :: "int \<Rightarrow> char \<Rightarrow> int" where
  "hashStep hash c = toInt32 ((toInt32 (hash * 32) - hash) + charCodeAt c)"

definition simpleHash :: "string \<Rightarrow> int" where
  "simpleHash str = (if length str = 0 then 0 else \<bar>foldl hashStep 0 str\<bar>)"

text \<open>For a string argument nothing in the \<^verbatim>\<open>try\<close> block can throw, so the zero
  vector of the \<^verbatim>\<open>catch\<close> block is never returned.\<close>

definition generateEmbedding :: "string \<Rightarrow> real list" where
  "generateEmbedding txt =
     (let hash = simpleHash txt
      in map (\<lambda>i. sin (of_int (hash + int i)) * 0.1 + cos (of_int (hash * 2 + int i)) * 0.05)
           [0 ..< 384])"

text \<open>The hash as the specification words it: \<open>h = h * 31 + charCode\<close>, wrapped to
  (signed) 32 bits after every character.\<close>

definition rollingHash32 :: "string \<Rightarrow> int" where
  "rollingHash32 str = foldl (\<lambda>h c. toInt32 (h * 31 + charCodeAt c)) 0 str"

definition cosineSimilarity :: "real list \<Rightarrow> real list \<Rightarrow> real" where
  "cosineSimilarity vecA vecB =
     (if length vecA \<noteq> length vecB then 0
      else if length vecA = 0 then 0
      else
        (let dotProduct = foldl (\<lambda>sum (a, b). sum + a * b) 0 (zip vecA vecB);
             magnitudeA = sqrt (foldl (\<lambda>sum a. sum + a * a) 0 vecA);
             magnitudeB = sqrt (foldl (\<lambda>sum b. sum + b * b) 0 vecB)
         in if magnitudeA = 0 \<or> magnitudeB = 0 then 0
            else dotProduct / (magnitudeA * magnitudeB)))"

section \<open>Documents, answers and the cache store\<close>

datatype status = Processing | Completed | Failed

record document =
  docId :: string
  originalName :: string
  docFileType :: string
  docChunks :: "chunk list"
  docStatus :: status

text \<open>An element of \<^verbatim>\<open>similarities\<close> in \<^verbatim>\<open>retrieveRelevantChunks\<close>.\<close>

record candidate =
  candText :: string
  candSimilarity :: real
  candDocId :: string
  candFilename :: string
  candFileType :: string

text \<open>A result of the web search collaborator.\<close>

record webResult =
  wrTitle :: string
  wrLink :: string
  wrSnippet :: string
  wrSource :: string

record sourceEntry =
  srcFilename :: string
  srcFileType :: string
  srcSimilarity :: real

record webEntry =
  webTitle :: string
  webSource :: string
  webUrl :: string

text \<open>The object that \<^verbatim>\<open>generateAnswer\<close> returns. The field
  \<^verbatim>\<open>webSearchEnabled\<close> is present only on generated answers, \<^verbatim>\<open>error\<close> only
  on the apology.\<close>

record response =
  answer :: string
  sources :: "sourceEntry list"
  webResults :: "webEntry list"
  webSearchEnabledField :: "bool option"
  errorField :: bool

datatype error = Error string

text \<open>The value of the hash that \<^verbatim>\<open>generateAndCacheEmbeddings\<close> writes under a chunk
  key. The field \<^verbatim>\<open>embedding\<close> holds JSON text; the model keeps the vector it encodes.\<close>

record chunkData =
  cdText :: string
  cdEmbedding :: "real list"
  cdDocId :: string
  cdFilename :: string

text \<open>
  A Redis value is a hash (Passage Cache) or a string (Answer Cache). The string that
  \<^verbatim>\<open>generateAnswer\<close> stores is \<^verbatim>\<open>JSON.stringify(response)\<close>; the model keeps the
  response it encodes, which is what \<^verbatim>\<open>JSON.parse\<close> gives back, and renders the text
  with \<open>stringify\<close> below where the source inspects it. Every entry carries the time to
  live it was written with.
\<close>

datatype redisValue = HashValue chunkData | StringValue response

type_synonym store = "(string \<times> nat \<times> redisValue) list"

text \<open>The mutable state: the Redis key space, the document collection, and the number of
  calls made to the generation collaborator so far.\<close>

record world =
  redis :: store
  documents :: "document list"
  generationCalls :: nat

text \<open>The request handed to the web search collaborator. The query string is a pure
  function of these arguments (\<^verbatim>\<open>extractSearchTerms\<close>, which catches its own errors, or
  the two \<^verbatim>\<open>replace\<close> calls on the question) and is left to the collaborator.\<close>

datatype searchRequest = FromDocument string string | Direct string

text \<open>The prompt: which of the three templates is used and the values put into it.\<close>

datatype prompt =
    CombinedPrompt "candidate list" "webResult list" string
  | WebOnlyPrompt "webResult list" string
  | DocumentOnlyPrompt "candidate list" string bool

text \<open>The collaborators, each of which may fail: Redis and the document database are up
  or down; web search and generation return a result or an error.\<close>

record collaborators =
  redisUp :: bool
  dbUp :: bool
  searchWeb :: "searchRequest \<Rightarrow> nat \<Rightarrow> error + webResult list"
  generateContent :: "prompt \<Rightarrow> error + string"

subsection \<open>Redis commands\<close>

definition redisGet :: "collaborators \<Rightarrow> store \<Rightarrow> string \<Rightarrow> error + response option" where
  "redisGet env st key =
     (if \<not> redisUp env then Inl (Error ''redis: connection closed'')
      else (case map_of st key of
              None \<Rightarrow> Inr None
            | Some (ttl, StringValue r) \<Rightarrow> Inr (Some r)
            | Some (ttl, HashValue h) \<Rightarrow> Inl (Error ''WRONGTYPE'')))"

definition redisHGetAll :: "collaborators \<Rightarrow> store \<Rightarrow> string \<Rightarrow> error + chunkData option" where
  "redisHGetAll env st key =
     (if \<not> redisUp env then Inl (Error ''redis: connection closed'')
      else (case map_of st key of
              None \<Rightarrow> Inr None
            | Some (ttl, HashValue h) \<Rightarrow> Inr (Some h)
            | Some (ttl, StringValue r) \<Rightarrow> Inl (Error ''WRONGTYPE'')))"

definition redisSetEx ::
  "collaborators \<Rightarrow> store \<Rightarrow> string \<Rightarrow> nat \<Rightarrow> response \<Rightarrow> error + store" where
  "redisSetEx env st key ttl r =
     (if \<not> redisUp env then Inl (Error ''redis: connection closed'')
      else Inr ((key, ttl, StringValue r) # filter (\<lambda>e. fst e \<noteq> key) st))"

text \<open>\<^verbatim>\<open>keys(pattern)\<close> for the patterns of the source, a literal prefix followed by
  \<^verbatim>\<open>*\<close> (document ids are hexadecimal, so the prefix has no glob character).\<close>

definition redisKeys :: "collaborators \<Rightarrow> store \<Rightarrow> string \<Rightarrow> error + string list" where
  "redisKeys env st pre =
     (if \<not> redisUp env then Inl (Error ''redis: connection closed'')
      else Inr (filter (prefix pre) (map fst st)))"

definition redisDel :: "collaborators \<Rightarrow> store \<Rightarrow> string list \<Rightarrow> error + store" where
  "redisDel env st keys =
     (if \<not> redisUp env then Inl (Error ''redis: connection closed'')
      else Inr (filter (\<lambda>e. fst e \<notin> set keys) st))"

subsection \<open>Numbers and JSON text\<close>

definition digitChar :: "nat \<Rightarrow> char" where
  "digitChar n = ''0123456789abcdef'' ! n"

fun decimal :: "nat \<Rightarrow> string" where
  "decimal n =
     (if n < 10 then [digitChar n] else decimal (n div 10) @ [digitChar (n mod 10)])"

text \<open>The text of a double that is the nearest one to a number of hundredths, which is
  every similarity that \<^verbatim>\<open>generateAnswer\<close> writes: the shortest decimal that reads back
  as that double is the number of hundredths.\<close>

definition jsonNumber :: "real \<Rightarrow> string" where
  "jsonNumber x =
     (let k = mathRound (x * 100); m = nat \<bar>k\<bar>; whole = m div 100; frac = m mod 100
      in (if k < 0 then ''-'' else []) @ decimal whole @
         (if frac = 0 then []
          else if frac mod 10 = 0 then ''.'' @ decimal (frac div 10)
          else ''.'' @ decimal (frac div 10) @ decimal (frac mod 10)))"

definition jsonEscape :: "char \<Rightarrow> string" where
  "jsonEscape c =
     (let n = (of_char c :: nat)
      in if n = 34 then [CHR 0x5C, CHR 0x22]
         else if n = 92 then [CHR 0x5C, CHR 0x5C]
         else if n = 8 then [CHR 0x5C, CHR ''b'']
         else if n = 9 then [CHR 0x5C, CHR ''t'']
         else if n = 10 then [CHR 0x5C, CHR ''n'']
         else if n = 12 then [CHR 0x5C, CHR ''f'']
         else if n = 13 then [CHR 0x5C, CHR ''r'']
         else if n < 32 then [CHR 0x5C, CHR ''u'', CHR ''0'', CHR ''0'',
                              digitChar (n div 16), digitChar (n mod 16)]
         else [c])"

definition jsonString :: "string \<Rightarrow> string" where
  "jsonString s = [CHR 0x22] @ concat (map jsonEscape s) @ [CHR 0x22]"

definition jsonField :: "string \<Rightarrow> string \<Rightarrow> string" where
  "jsonField name val = jsonString name @ '':'' @ val"

fun commaJoin :: "string list \<Rightarrow> string" where
  "commaJoin [] = []"
| "commaJoin [x] = x"
| "commaJoin (x # y # ys) = x @ '','' @ commaJoin (y # ys)"

definition jsonObject :: "string list \<Rightarrow> string" where
  "jsonObject members = ''{'' @ commaJoin members @ ''}''"

definition jsonArray :: "string list \<Rightarrow> string" where
  "jsonArray items = ''['' @ commaJoin items @ '']''"

definition stringifySource :: "sourceEntry \<Rightarrow> string" where
  "stringifySource s =
     jsonObject [jsonField ''filename'' (jsonString (srcFilename s)),
                 jsonField ''fileType'' (jsonString (srcFileType s)),
                 jsonField ''similarity'' (jsonNumber (srcSimilarity s))]"

definition stringifyWebEntry :: "webEntry \<Rightarrow> string" where
  "stringifyWebEntry e =
     jsonObject [jsonField ''title'' (jsonString (webTitle e)),
                 jsonField ''source'' (jsonString (webSource e)),
                 jsonField ''url'' (jsonString (webUrl e))]"

text \<open>\<^verbatim>\<open>JSON.stringify(response)\<close>, the fields in the order the source writes them.\<close>

definition stringify :: "response \<Rightarrow> string" where
  "stringify r =
     jsonObject
       ([jsonField ''answer'' (jsonString (answer r)),
         jsonField ''sources'' (jsonArray (map stringifySource (sources r))),
         jsonField ''webResults'' (jsonArray (map stringifyWebEntry (webResults r)))] @
        (case webSearchEnabledField r of
           None \<Rightarrow> []
         | Some b \<Rightarrow> [jsonField ''webSearchEnabled'' (if b then ''true'' else ''false'')]) @
        (if errorField r then [jsonField ''error'' ''true''] else []))"

section \<open>Retriever\<close>

text \<open>
  A score on the fallback path is a JavaScript number that may be \<^verbatim>\<open>NaN\<close>. The finite
  values are doubles, computed with \<open>double\<close>; \<^verbatim>\<open>NaN\<close> is a value of its own, every
  comparison with it is false and \<^verbatim>\<open>Math.max\<close> returns it.
\<close>

datatype jsNumber = Num real | NaN


fun jsMax :: "jsNumber \<Rightarrow> real \<Rightarrow> jsNumber" where
  "jsMax (Num x) y = Num (max x y)"
| "jsMax NaN y = NaN"

definition chunkKey :: "string \<Rightarrow> nat \<Rightarrow> string" where
  "chunkKey d i = ''doc:'' @ d @ '':chunk:'' @ decimal i"

text \<open>
  The text match of the fallback path. \<^verbatim>\<open>matchedWords\<close> is a sub-list of
  \<^verbatim>\<open>queryWords\<close>, so the only division by zero is \<open>0 / 0\<close>, which is \<^verbatim>\<open>NaN\<close>.
\<close>

definition lexicalSimilarity :: "string \<Rightarrow> string \<Rightarrow> jsNumber" where
  "lexicalSimilarity queryLower chunkTextLower =
     (if includesStr chunkTextLower queryLower then Num (double 0.9)
      else
        (let queryWords = filter (\<lambda>word. length word > 2) (split (CHR '' '') queryLower);
             matchedWords = filter (\<lambda>word. includesStr chunkTextLower word) queryWords
         in if length queryWords = 0 then NaN
            else Num (double (double (real (length matchedWords) / real (length queryWords)) *
                              double 0.7))))"

text \<open>\<^verbatim>\<open>s.replace(pat, rep)\<close> with a string pattern: the first occurrence only.\<close>

fun replaceFirst :: "string \<Rightarrow> string \<Rightarrow> string \<Rightarrow> string" where
  "replaceFirst pat rep [] = (if pat = [] then rep else [])"
| "replaceFirst pat rep (c # cs) =
     (if prefix pat (c # cs) then rep @ drop (length pat) (c # cs)
      else c # replaceFirst pat rep cs)"

definition mentionsDocument :: "document \<Rightarrow> string \<Rightarrow> bool" where
  "mentionsDocument doc queryLower =
     (includesStr queryLower ''pdf'' \<or> includesStr queryLower ''document'' \<or>
      includesStr queryLower ''file'' \<or> includesStr queryLower ''summary'' \<or>
      includesStr queryLower (replaceFirst ''.pdf'' [] (toLowerCase (originalName doc))))"

definition fallbackSimilarity :: "document \<Rightarrow> string \<Rightarrow> string \<Rightarrow> jsNumber" where
  "fallbackSimilarity doc query chunkTxt =
     (let queryLower = toLowerCase query;
          chunkTextLower = toLowerCase chunkTxt;
          similarity = lexicalSimilarity queryLower chunkTextLower
      in if docFileType doc = ''.pdf'' \<and> mentionsDocument doc queryLower
         then jsMax similarity (double 0.8) else similarity)"

text \<open>The fallback branch for one chunk: what it pushes onto \<^verbatim>\<open>similarities\<close>.\<close>

definition fallbackCandidate :: "document \<Rightarrow> string \<Rightarrow> chunk \<Rightarrow> candidate list" where
  "fallbackCandidate doc query c =
     (if chunkText c = [] then []
      else (case fallbackSimilarity doc query (chunkText c) of
              NaN \<Rightarrow> []
            | Num similarity \<Rightarrow>
                if similarity > double 0.1
                then [\<lparr>candText = chunkText c, candSimilarity = similarity,
                       candDocId = docId doc, candFilename = originalName doc,
                       candFileType = docFileType doc\<rparr>]
                else []))"

definition embeddingCandidate :: "document \<Rightarrow> string \<Rightarrow> chunkData \<Rightarrow> candidate" where
  "embeddingCandidate doc query cd =
     \<lparr>candText = cdText cd,
      candSimilarity = cosineSimilarity (generateEmbedding query) (cdEmbedding cd),
      candDocId = docId doc, candFilename = originalName doc,
      candFileType = docFileType doc\<rparr>"

text \<open>
  The body of the loop over the chunks of one document. An error of the Redis read is
  caught by the \<^verbatim>\<open>try\<close> around the chunk, and the chunk is skipped. A missing key
  reads as the empty object; for a stored hash the test
  \<^verbatim>\<open>chunkData.embedding && chunkData.text\<close> is the test that the text is not empty,
  since the JSON text of a vector never is.
\<close>

definition processChunk ::
  "collaborators \<Rightarrow> store \<Rightarrow> string \<Rightarrow> document \<Rightarrow> nat \<Rightarrow> candidate list" where
  "processChunk env st query doc i =
     (case (if docFileType doc \<noteq> ''.pdf''
            then redisHGetAll env st (chunkKey (docId doc) i) else Inr None) of
        Inl e \<Rightarrow> []
      | Inr chunkData \<Rightarrow>
          (case chunkData of
             Some cd \<Rightarrow>
               if cdText cd \<noteq> [] then [embeddingCandidate doc query cd]
               else fallbackCandidate doc query (docChunks doc ! i)
           | None \<Rightarrow> fallbackCandidate doc query (docChunks doc ! i)))"

definition findCompleted :: "world \<Rightarrow> document list" where
  "findCompleted w = filter (\<lambda>doc. docStatus doc = Completed) (documents w)"

text \<open>
  \<^verbatim>\<open>retrieveRelevantChunks\<close>. A failure of the database read is caught and gives the
  empty list. The sort of the source is stable and descending in the similarity.
\<close>

definition retrieveRelevantChunks ::
  "collaborators \<Rightarrow> world \<Rightarrow> string \<Rightarrow> nat \<Rightarrow> candidate list" where
  "retrieveRelevantChunks env w query topK =
     (if \<not> dbUp env then []
      else
        (let similarities =
               concat (map (\<lambda>doc. concat (map (processChunk env (redis w) query doc)
                                              [0 ..< length (docChunks doc)]))
                           (findCompleted w))
         in take topK (sort_key (\<lambda>c. - candSimilarity c) similarities)))"

section \<open>Answer synthesizer\<close>

text \<open>\<^verbatim>\<open>Buffer.from(question)\<close>: the UTF-8 bytes of the string.\<close>

definition utf8Bytes :: "string \<Rightarrow> nat list" where
  "utf8Bytes s =
     concat (map (\<lambda>c. let n = (of_char c :: nat)
                       in if n < 128 then [n] else [192 + n div 64, 128 + n mod 64]) s)"

definition base64Char :: "nat \<Rightarrow> char" where
  "base64Char n =
     ''ABCDEFGHIJKLMNOPQRSTUVWXYZabcdefghijklmnopqrstuvwxyz0123456789+/'' ! n"

text \<open>\<^verbatim>\<open>toString('base64')\<close>: three bytes give four characters, the last group is
  padded with \<open>=\<close>.\<close>

fun base64 :: "nat list \<Rightarrow> string" where
  "base64 (a # b # c # rest) =
     [base64Char (a div 4), base64Char ((a mod 4) * 16 + b div 16),
      base64Char ((b mod 16) * 4 + c div 64), base64Char (c mod 64)] @ base64 rest"
| "base64 [a, b] =
     [base64Char (a div 4), base64Char ((a mod 4) * 16 + b div 16),
      base64Char ((b mod 16) * 4), CHR ''='']"
| "base64 [a] = [base64Char (a div 4), base64Char ((a mod 4) * 16), CHR ''='', CHR ''='']"
| "base64 [] = []"

definition answerCacheKey :: "string \<Rightarrow> string \<Rightarrow> bool \<Rightarrow> string" where
  "answerCacheKey roomId question webSearchEnabled =
     ''answer:'' @ roomId @ '':'' @ take 50 (base64 (utf8Bytes question)) @ '':ws'' @
     (if webSearchEnabled then ''true'' else ''false'')"

definition webSearchKeywords :: "string list" where
  "webSearchKeywords =
     [''search internet'', ''search web'', ''search online'', ''google'', ''find online'',
      ''web search'', ''internet search'', ''search for'', ''look up online'',
      ''find more info'', ''additional information'', ''latest news'', ''current info'']"

definition isWebSearchRequest :: "string \<Rightarrow> bool" where
  "isWebSearchRequest query =
     (let queryLower = toLowerCase query
      in list_ex (\<lambda>keyword. includesStr queryLower keyword) webSearchKeywords)"

text \<open>\<^verbatim>\<open>Math.round(x * 100) / 100\<close>: the product and the quotient are operations on
  doubles.\<close>

definition round2 :: "real \<Rightarrow> real" where
  "round2 x = double (of_int (mathRound (double (x * 100))) / 100)"

definition toSourceEntry :: "candidate \<Rightarrow> sourceEntry" where
  "toSourceEntry c =
     \<lparr>srcFilename = candFilename c, srcFileType = candFileType c,
      srcSimilarity = round2 (candSimilarity c)\<rparr>"

definition toWebEntry :: "webResult \<Rightarrow> webEntry" where
  "toWebEntry r = \<lparr>webTitle = wrTitle r, webSource = wrSource r, webUrl = wrLink r\<rparr>"

text \<open>The response built from a generated answer (the object literal after the
  generation call).\<close>

definition shapeResponse ::
  "string \<Rightarrow> candidate list \<Rightarrow> webResult list \<Rightarrow> bool \<Rightarrow> response" where
  "shapeResponse txt relevantChunks webSearchResults webSearchEnabled =
     \<lparr>answer = txt,
      sources = map toSourceEntry relevantChunks,
      webResults = map toWebEntry webSearchResults,
      webSearchEnabledField = Some webSearchEnabled,
      errorField = False\<rparr>"

definition plainResponse :: "string \<Rightarrow> response" where
  "plainResponse txt =
     \<lparr>answer = txt, sources = [], webResults = [], webSearchEnabledField = None,
      errorField = False\<rparr>"

text \<open>The three canned answers when there is neither a passage nor a web result.\<close>

definition cannedResponse :: "bool \<Rightarrow> bool \<Rightarrow> nat \<Rightarrow> response" where
  "cannedResponse webSearchEnabled isWebSearchRequested totalDocs =
     (if \<not> webSearchEnabled \<and> isWebSearchRequested then
        plainResponse (''Web search is currently disabled. I can only answer questions '' @
          ''based on your uploaded documents. To enable web search, please toggle the '' @
          [CHR 0x27] @ ''Web Search'' @ [CHR 0x27] @ '' button in the chat header.'')
      else if totalDocs = 0 then
        plainResponse (''I don'' @ [CHR 0x27] @ ''t have any uploaded documents to reference. '' @
          ''Please upload some documents first (PDF, TXT, or DOCX files) so I can provide '' @
          ''helpful answers'' @
          (if webSearchEnabled then '' and perform relevant web searches'' else []) @ ''.'')
      else
        plainResponse (''I found '' @ decimal totalDocs @ '' uploaded document(s), but I '' @
          ''couldn'' @ [CHR 0x27] @ ''t find content directly relevant to your question. '' @
          ''Try asking more specific questions about your documents'' @
          (if webSearchEnabled then '', or use web search for external information'' else []) @
          ''.''))"

text \<open>The object returned by the \<^verbatim>\<open>catch\<close> block.\<close>

definition apologyResponse :: response where
  "apologyResponse =
     \<lparr>answer = ''I apologize, but I encountered an error while generating a response. '' @
        ''Please try asking your question again, or rephrase it differently.'',
      sources = [], webResults = [], webSearchEnabledField = None, errorField = True\<rparr>"

definition buildPrompt ::
  "candidate list \<Rightarrow> webResult list \<Rightarrow> string \<Rightarrow> bool \<Rightarrow> prompt" where
  "buildPrompt relevantChunks webSearchResults question webSearchEnabled =
     (if webSearchResults \<noteq> [] \<and> relevantChunks \<noteq> []
      then CombinedPrompt relevantChunks webSearchResults question
      else if webSearchResults \<noteq> [] then WebOnlyPrompt webSearchResults question
      else DocumentOnlyPrompt relevantChunks question webSearchEnabled)"

text \<open>The web search step. A failure of the search is caught: the answer goes on with
  no web results.\<close>

definition performWebSearch ::
  "collaborators \<Rightarrow> candidate list \<Rightarrow> string \<Rightarrow> bool \<Rightarrow> webResult list" where
  "performWebSearch env relevantChunks question webSearchEnabled =
     (if isWebSearchRequest question \<and> webSearchEnabled then
        (case searchWeb env
                (case relevantChunks of
                   c # cs \<Rightarrow> FromDocument (candText c) question
                 | [] \<Rightarrow> Direct question) 4 of
           Inl e \<Rightarrow> []
         | Inr results \<Rightarrow> results)
      else [])"

text \<open>The cache write and the return at the end of the \<^verbatim>\<open>try\<close> block.\<close>

definition cacheAndReturn ::
  "collaborators \<Rightarrow> world \<Rightarrow> string \<Rightarrow> webResult list \<Rightarrow> response \<Rightarrow>
     (error + response) \<times> world" where
  "cacheAndReturn env w cacheKey webSearchResults r =
     (let cacheTime = (if webSearchResults \<noteq> [] then 1800 else 3600)
      in case redisSetEx env (redis w) cacheKey cacheTime r of
           Inl e \<Rightarrow> (Inl e, w)
         | Inr st \<Rightarrow> (Inr r, w\<lparr>redis := st\<rparr>))"

text \<open>
  The \<^verbatim>\<open>try\<close> block of \<^verbatim>\<open>generateAnswer\<close>: \<open>Inl\<close> is an exception that reaches
  the \<^verbatim>\<open>catch\<close> block. The world is returned as the block left it.
\<close>

definition generateAnswerBody ::
  "collaborators \<Rightarrow> world \<Rightarrow> string \<Rightarrow> string \<Rightarrow> bool \<Rightarrow> (error + response) \<times> world" where
  "generateAnswerBody env w question roomId webSearchEnabled =
     (let cacheKey = answerCacheKey roomId question webSearchEnabled
      in case redisGet env (redis w) cacheKey of
           Inl e \<Rightarrow> (Inl e, w)
         | Inr (Some cachedAnswer) \<Rightarrow> (Inr cachedAnswer, w)
         | Inr None \<Rightarrow>
             (let relevantChunks = retrieveRelevantChunks env w question 3;
                  webSearchResults =
                    performWebSearch env relevantChunks question webSearchEnabled
              in if relevantChunks = [] \<and> webSearchResults = [] then
                   (if \<not> dbUp env then (Inl (Error ''database: not connected''), w)
                    else cacheAndReturn env w cacheKey webSearchResults
                           (cannedResponse webSearchEnabled (isWebSearchRequest question)
                              (length (findCompleted w))))
                 else
                   (let w1 = w\<lparr>generationCalls := generationCalls w + 1\<rparr>
                    in case generateContent env
                              (buildPrompt relevantChunks webSearchResults question
                                 webSearchEnabled) of
                         Inl e \<Rightarrow> (Inl e, w1)
                       | Inr txt \<Rightarrow>
                           cacheAndReturn env w1 cacheKey webSearchResults
                             (shapeResponse txt relevantChunks webSearchResults
                                webSearchEnabled))))"

text \<open>\<^verbatim>\<open>generateAnswer\<close>: the \<^verbatim>\<open>try\<close> block with its \<^verbatim>\<open>catch\<close>. The result is
  still written as a sum, so that "no exception escapes" is a statement to prove.\<close>

definition generateAnswer ::
  "collaborators \<Rightarrow> world \<Rightarrow> string \<Rightarrow> string \<Rightarrow> bool \<Rightarrow> (error + response) \<times> world" where
  "generateAnswer env w question roomId webSearchEnabled =
     (case generateAnswerBody env w question roomId webSearchEnabled of
        (Inl e, w') \<Rightarrow> (Inr apologyResponse, w')
      | (Inr r, w') \<Rightarrow> (Inr r, w'))"

section \<open>Document deletion\<close>

text \<open>The loop of \<^verbatim>\<open>deleteDocumentFromCache\<close> over the answer keys: the keys whose
  cached text contains the document id. A failing read ends the loop with the error.\<close>

fun relatedAnswerKeys ::
  "collaborators \<Rightarrow> store \<Rightarrow> string \<Rightarrow> string list \<Rightarrow> error + string list" where
  "relatedAnswerKeys env st documentId [] = Inr []"
| "relatedAnswerKeys env st documentId (key # keys) =
     (case redisGet env st key of
        Inl e \<Rightarrow> Inl e
      | Inr cached \<Rightarrow>
          (case relatedAnswerKeys env st documentId keys of
             Inl e \<Rightarrow> Inl e
           | Inr related \<Rightarrow>
               (case cached of
                  Some r \<Rightarrow>
                    if includesStr (stringify r) documentId then Inr (key # related)
                    else Inr related
                | None \<Rightarrow> Inr related)))"

text \<open>\<^verbatim>\<open>deleteDocumentFromCache\<close>. Every error is caught and logged; the store stays
  as the failing step found it.\<close>

definition deleteDocumentFromCache :: "collaborators \<Rightarrow> store \<Rightarrow> string \<Rightarrow> store" where
  "deleteDocumentFromCache env st documentId =
     (case redisKeys env st (''doc:'' @ documentId @ '':'') of
        Inl e \<Rightarrow> st
      | Inr keys \<Rightarrow>
          (case (if keys \<noteq> [] then redisDel env st keys else Inr st) of
             Inl e \<Rightarrow> st
           | Inr st1 \<Rightarrow>
               (case redisKeys env st1 ''answer:'' of
                  Inl e \<Rightarrow> st1
                | Inr answerKeys \<Rightarrow>
                    (case relatedAnswerKeys env st1 documentId answerKeys of
                       Inl e \<Rightarrow> st1
                     | Inr related \<Rightarrow>
                         if related \<noteq> []
                         then (case redisDel env st1 related of Inl e \<Rightarrow> st1 | Inr st2 \<Rightarrow> st2)
                         else st1))))"

text \<open>The handler \<^verbatim>\<open>deleteDocument\<close>: the HTTP status it answers with, or the error it
  passes to the error middleware, and the world after it.\<close>

definition deleteDocument :: "collaborators \<Rightarrow> world \<Rightarrow> string \<Rightarrow> (error + nat) \<times> world" where
  "deleteDocument env w ident =
     (if \<not> dbUp env then (Inl (Error ''database: not connected''), w)
      else if \<not> list_ex (\<lambda>doc. docId doc = ident) (documents w) then (Inr 404, w)
      else (Inr 200,
            w\<lparr>documents := filter (\<lambda>doc. docId doc \<noteq> ident) (documents w),
              redis := deleteDocumentFromCache env (redis w) ident\<rparr>))"

section \<open>The scoring rule as the specification words it\<close>

text \<open>
  The specification gives the fallback score as \<open>0.9\<close> for a substring match and
  otherwise the share of the query words longer than two characters that occur in the
  chunk, times \<open>0.7\<close>, "words split on whitespace". This definition follows those words;
  it is compared with \<open>fallbackSimilarity\<close>, which follows the source.
\<close>

fun splitWhen :: "(char \<Rightarrow> bool) \<Rightarrow> string \<Rightarrow> string list" where
  "splitWhen p [] = [[]]"
| "splitWhen p (c # cs) =
     (if p c then [] # splitWhen p cs
      else (case splitWhen p cs of [] \<Rightarrow> [[c]] | w # ws \<Rightarrow> (c # w) # ws))"

definition claimedLexicalScore :: "string \<Rightarrow> string \<Rightarrow> jsNumber" where
  "claimedLexicalScore query chunkTxt =
     (let q = toLowerCase query; t = toLowerCase chunkTxt
      in if includesStr t q then Num (double 0.9)
         else
           (let ws = filter (\<lambda>w. length w > 2) (splitWhen isWhiteSpace q);
                found = filter (\<lambda>w. includesStr t w) ws
            in if length ws = 0 then NaN
               else Num (double (double (real (length found) / real (length ws)) *
                                 double 0.7))))"

section \<open>Example inputs\<close>

text \<open>
  Concrete inputs on which the model is run below: collaborators with Redis and the
  database up, web search not configured and a given generation collaborator; a text
  document of two chunks; worlds with that document, with an empty cache or with the
  cache entries of the document and of one answer; a PDF document of one chunk.
\<close>

definition exampleEnv :: "(prompt \<Rightarrow> error + string) \<Rightarrow> collaborators" where
  "exampleEnv gen =
     \<lparr>redisUp = True, dbUp = True,
      searchWeb = (\<lambda>req n. Inl (Error ''Web search is not configured'')),
      generateContent = gen\<rparr>"

definition invoiceDoc :: document where
  "invoiceDoc =
     \<lparr>docId = ''64b7f0c2a1d3e4f5a6b7c8d9'', originalName = ''invoice.txt'',
      docFileType = ''.txt'',
      docChunks = [\<lparr>chunkText = ''The invoice total is $450.'', chunkIndex = 0\<rparr>,
                   \<lparr>chunkText = ''Payment of the invoice is due in 30 days.'',
                    chunkIndex = 1\<rparr>],
      docStatus = Completed\<rparr>"

definition invoiceWorld :: "nat \<Rightarrow> world" where
  "invoiceWorld n = \<lparr>redis = [], documents = [invoiceDoc], generationCalls = n\<rparr>"

definition invoiceCandidates :: "candidate list" where
  "invoiceCandidates =
     [\<lparr>candText = ''The invoice total is $450.'', candSimilarity = double 0.35,
       candDocId = ''64b7f0c2a1d3e4f5a6b7c8d9'', candFilename = ''invoice.txt'',
       candFileType = ''.txt''\<rparr>,
      \<lparr>candText = ''Payment of the invoice is due in 30 days.'', candSimilarity = double 0.35,
       candDocId = ''64b7f0c2a1d3e4f5a6b7c8d9'', candFilename = ''invoice.txt'',
       candFileType = ''.txt''\<rparr>]"

definition invoiceAnswer :: response where
  "invoiceAnswer =
     \<lparr>answer = ''The invoice total is $450.'',
      sources = [\<lparr>srcFilename = ''invoice.txt'', srcFileType = ''.txt'',
                  srcSimilarity = double 0.35\<rparr>,
                 \<lparr>srcFilename = ''invoice.txt'', srcFileType = ''.txt'',
                  srcSimilarity = double 0.35\<rparr>],
      webResults = [], webSearchEnabledField = Some False, errorField = False\<rparr>"

definition invoiceAnswerEntry :: "string \<times> nat \<times> redisValue" where
  "invoiceAnswerEntry =
     (''answer:room1:V2hhdCBpcyB0aGUgaW52b2ljZSB0b3RhbD8=:wsfalse'', 3600,
      StringValue invoiceAnswer)"

definition invoicePassageEntry :: "nat \<Rightarrow> string \<times> nat \<times> redisValue" where
  "invoicePassageEntry i =
     (chunkKey ''64b7f0c2a1d3e4f5a6b7c8d9'' i, 86400,
      HashValue \<lparr>cdText = chunkText (docChunks invoiceDoc ! i),
                  cdEmbedding = generateEmbedding (chunkText (docChunks invoiceDoc ! i)),
                  cdDocId = ''64b7f0c2a1d3e4f5a6b7c8d9'', cdFilename = ''invoice.txt''\<rparr>)"

definition invoiceCachedWorld :: world where
  "invoiceCachedWorld =
     \<lparr>redis = [invoicePassageEntry 0, invoicePassageEntry 1, invoiceAnswerEntry],
      documents = [invoiceDoc], generationCalls = 1\<rparr>"

definition dueCandidates :: "candidate list" where
  "dueCandidates =
     [\<lparr>candText = ''The invoice total is $450.'',
       candSimilarity = double (double (3 / 4) * double 0.7),
       candDocId = ''64b7f0c2a1d3e4f5a6b7c8d9'', candFilename = ''invoice.txt'',
       candFileType = ''.txt''\<rparr>,
      \<lparr>candText = ''Payment of the invoice is due in 30 days.'',
       candSimilarity = double (double (2 / 4) * double 0.7),
       candDocId = ''64b7f0c2a1d3e4f5a6b7c8d9'', candFilename = ''invoice.txt'',
       candFileType = ''.txt''\<rparr>]"

definition reportDoc :: document where
  "reportDoc =
     \<lparr>docId = ''64b7f0c2a1d3e4f5a6b7c8da'', originalName = ''report.pdf'',
      docFileType = ''.pdf'',
      docChunks = [\<lparr>chunkText = ''Quarterly revenue grew by ten percent.'',
                    chunkIndex = 0\<rparr>],
      docStatus = Completed\<rparr>"

section \<open>JavaScript numbers: properties\<close>

text \<open>The rules that evaluate \<open>double\<close> on a given number, and the doubles of the literals
  of the source.\<close>

lemmas double_eval =
  double_def binaryExponent_def pow2_def roundTiesToEven_def bitLength.simps Let_def

lemma double_literals:
  "double 0.7 = 3152519739159347 / 4503599627370496"
  "double 0.1 = 3602879701896397 / 36028797018963968"
  "double 0.8 = 3602879701896397 / 4503599627370496"
  "double 0.9 = 8106479329266893 / 9007199254740992"
  "double 0.35 = 3152519739159347 / 9007199254740992"
  "double 0.52 = 1170935903116329 / 2251799813685248"
  by (simp_all add: double_eval)

text \<open>\<^verbatim>\<open>800 * 0.7\<close> is 560 and \<^verbatim>\<open>90 * 0.7\<close> is just below 63, as in the source; three
  quarters of \<open>0.7\<close> is just below \<open>0.525\<close>.\<close>

lemma double_products:
  "double (800 * double 0.7) = 560"
  "double (90 * double 0.7) < 63"
  "double (double (2 / 4) * double 0.7) = double 0.35"
  "double (double (3 / 4) * double 0.7) = 1182194902184755 / 2251799813685248"
  "double (double (3 / 4) * double 0.7) < 525 / 1000"
  by (simp_all add: double_eval)

text \<open>\<^verbatim>\<open>Math.round(0.175 * 100) / 100\<close> is 0.18 (the product is the double 17.5), and the
  score of three matched words out of four is shown as 0.52.\<close>

lemma round2_examples:
  "round2 (double 0.175) = double 0.18"
  "round2 (double 0.345) = double 0.35"
  "round2 (double 0.35) = double 0.35"
  "round2 (double (double (3 / 4) * double 0.7)) = double 0.52"
  by (simp_all add: round2_def mathRound_def double_eval)

text \<open>\<open>binaryExponent\<close> is the binary exponent, and \<open>double x\<close> is within half a unit in
  the last place of \<open>x\<close>.\<close>

lemma bitLength_bounds: "0 < n \<Longrightarrow> 2 ^ (bitLength n - 1) \<le> n \<and> n < 2 ^ bitLength n"
proof (induction n rule: bitLength.induct)
  case (1 n)
  show ?case
  proof (cases "n div 2 = 0")
    case True
    with 1(2) have "n = 1" by (simp add: div_eq_0_iff)
    then show ?thesis by (simp add: bitLength.simps)
  next
    case False
    then have pos: "0 < n div 2" by simp
    from 1(2) have n0: "n \<noteq> 0" by simp
    from 1(1) [OF n0 pos] have lo: "2 ^ (bitLength (n div 2) - 1) \<le> n div 2"
      and hi: "n div 2 < 2 ^ bitLength (n div 2)" by simp_all
    have bl: "bitLength n = Suc (bitLength (n div 2))" using n0 by (subst bitLength.simps) simp
    have blpos: "0 < bitLength (n div 2)" using pos by (subst bitLength.simps) simp
    from lo have "2 * 2 ^ (bitLength (n div 2) - 1) \<le> n" by linarith
    moreover have "2 * 2 ^ (bitLength (n div 2) - 1) = (2::nat) ^ bitLength (n div 2)"
      using blpos by (cases "bitLength (n div 2)") simp_all
    moreover from hi have "n < 2 * 2 ^ bitLength (n div 2)" by linarith
    ultimately show ?thesis by (simp add: bl)
  qed
qed


lemma bitLength_pos: "0 < n \<Longrightarrow> 0 < bitLength n"
  by (subst bitLength.simps) simp

lemma pow2_nat: "pow2 (int k) = 2 ^ k"
  by (simp add: pow2_def)

lemma pow2_neg: "pow2 (- int k) = 1 / 2 ^ k"
  by (auto simp: pow2_def)

lemma pow2_pos: "0 < pow2 e"
  by (simp add: pow2_def)

lemma binaryExponent_bounds:
  assumes "0 < x"
  shows "pow2 (binaryExponent x) \<le> x \<and> x < pow2 (binaryExponent x + 1)"
proof (cases "1 \<le> x")
  case True
  let ?n = "nat \<lfloor>x\<rfloor>"
  from True have n: "0 < ?n" by simp
  obtain k where k: "bitLength ?n = Suc k"
    using bitLength_pos [OF n] by (cases "bitLength ?n") simp_all
  from bitLength_bounds [OF n] have lo: "2 ^ k \<le> ?n" and hi: "?n < 2 ^ Suc k"
    by (simp_all add: k)
  have e: "binaryExponent x = int k" using True by (simp add: binaryExponent_def k)
  have "real ?n \<le> x" using True by (simp add: of_nat_nat)
  with lo have 1: "2 ^ k \<le> x"
    by (metis (mono_tags) of_nat_le_iff of_nat_numeral of_nat_power order_trans)
  from hi have "?n + 1 \<le> 2 ^ Suc k" by simp
  then have "real (?n + 1) \<le> 2 ^ Suc k"
    by (metis (mono_tags) of_nat_le_iff of_nat_numeral of_nat_power)
  moreover have "x < real (?n + 1)" using True by (simp add: of_nat_nat) linarith
  ultimately have 2: "x < 2 ^ Suc k" by linarith
  have "pow2 (int k + 1) = 2 ^ Suc k" using pow2_nat [of "Suc k"] by (simp add: add.commute)
  with 1 2 show ?thesis unfolding e by (simp add: pow2_nat)
next
  case False
  let ?y = "1 / x"
  let ?n = "nat (\<lceil>?y\<rceil> - 1)"
  from False assms have y1: "1 < ?y" by simp
  then have c2: "2 \<le> \<lceil>?y\<rceil>" by linarith
  then have n: "0 < ?n" by simp
  obtain k where k: "bitLength ?n = Suc k"
    using bitLength_pos [OF n] by (cases "bitLength ?n") simp_all
  from bitLength_bounds [OF n] have lo: "2 ^ k \<le> ?n" and hi: "?n < 2 ^ Suc k"
    by (simp_all add: k)
  have e: "binaryExponent x = - int (Suc k)" using False by (simp add: binaryExponent_def k)
  have "real ?n = of_int (\<lceil>?y\<rceil> - 1)" by (rule of_nat_nat) (use c2 in linarith)
  then have nreal: "real ?n = of_int \<lceil>?y\<rceil> - 1" by simp
  from lo have "(2::real) ^ k \<le> real ?n"
    by (metis (mono_tags) of_nat_le_iff of_nat_numeral of_nat_power)
  moreover have "real ?n < ?y" unfolding nreal by linarith
  ultimately have a: "2 ^ k < ?y" by linarith
  from hi have "?n + 1 \<le> 2 ^ Suc k" by simp
  then have "real (?n + 1) \<le> 2 ^ Suc k"
    by (metis (mono_tags) of_nat_le_iff of_nat_numeral of_nat_power)
  moreover have "?y \<le> real (?n + 1)" using nreal by simp
  ultimately have b: "?y \<le> 2 ^ Suc k" by linarith
  from b assms have 1: "1 / 2 ^ Suc k \<le> x"
    by (simp add: field_simps)
  from a assms have 2: "x < 1 / 2 ^ k"
    by (simp add: field_simps)
  have "- int (Suc k) + 1 = - int k" by simp
  then have p2: "pow2 (- int (Suc k) + 1) = 1 / 2 ^ k" using pow2_neg [of k] by (simp only:)
  have p1: "pow2 (- int (Suc k)) = 1 / 2 ^ Suc k" by (rule pow2_neg)
  from 1 2 show ?thesis unfolding e p1 p2 by (rule conjI)
qed

lemma roundTiesToEven_close: "\<bar>of_int (roundTiesToEven x) - x\<bar> \<le> 1 / 2"
  unfolding roundTiesToEven_def Let_def by (auto split: if_splits)

lemma double_nearest:
  assumes "x \<noteq> 0"
  shows "\<bar>double x - x\<bar> \<le> pow2 (binaryExponent \<bar>x\<bar> - 52) / 2"
proof -
  let ?e = "binaryExponent \<bar>x\<bar> - 52"
  let ?z = "\<bar>x\<bar> / pow2 ?e"
  let ?m = "roundTiesToEven ?z"
  have p: "0 < pow2 ?e" by (rule pow2_pos)
  have d: "double x = sgn x * of_int ?m * pow2 ?e" using assms by (simp add: double_def Let_def)
  have x: "x = sgn x * ?z * pow2 ?e" using p by (simp add: mult_sgn_abs)
  have "double x - x = sgn x * (of_int ?m - ?z) * pow2 ?e"
    by (subst (2) x, subst d) (simp add: algebra_simps)
  then have "\<bar>double x - x\<bar> = \<bar>of_int ?m - ?z\<bar> * pow2 ?e"
    using assms p by (simp add: abs_mult abs_sgn_eq)
  also have "\<dots> \<le> 1 / 2 * pow2 ?e"
    by (rule mult_right_mono [OF roundTiesToEven_close]) (use p in simp)
  finally show ?thesis by simp
qed

section \<open>JavaScript strings: properties\<close>

text \<open>\<open>includesStr\<close> is the contiguous-substring relation, and \<open>toLowerChar\<close> adds 32 to
  the code units it changes.\<close>

lemma includesStr_sublist: "includesStr s pat \<longleftrightarrow> sublist pat s"
  by (induction s) (auto simp: sublist_Cons_right)

lemma toLowerChar_code:
  "(of_char (toLowerChar c) :: nat) =
     (if (65 \<le> (of_char c :: nat) \<and> (of_char c :: nat) \<le> 90) \<or>
         (192 \<le> (of_char c :: nat) \<and> (of_char c :: nat) \<le> 222 \<and>
          (of_char c :: nat) \<noteq> 215)
      then of_char c + 32 else of_char c)"
proof (cases c)
  case (Char b0 b1 b2 b3 b4 b5 b6 b7)
  show ?thesis
    unfolding Char
    by (cases b0; cases b1; cases b2; cases b3; cases b4; cases b5; cases b6; cases b7)
      (simp_all add: Let_def)
qed

section \<open>Chunker: properties\<close>

text \<open>
  C7. A text no longer than the target size gives exactly one chunk, with index 0, whose
  text is the trimmed input.
\<close>

theorem chunkDocument_short:
  "length txt \<le> chunkSize \<Longrightarrow>
     chunkDocument txt chunkSize overlap = Some [\<lparr>chunkText = trim txt, chunkIndex = 0\<rparr>]"
  by (simp add: chunkDocument_def)

theorem chunkDocument_short_witness:
  "length ''  The invoice total is $450. '' \<le> (800 :: nat) \<and>
   chunkDocument ''  The invoice total is $450. '' 800 150 =
     Some [\<lparr>chunkText = ''The invoice total is $450.'', chunkIndex = 0\<rparr>]"
  using chunkDocument_short [of "''  The invoice total is $450. ''" 800 150]
  by (simp add: trim_def isWhiteSpace_def)

text \<open>Helper facts for running the chunker on a padded text.\<close>

lemma trim_padded:
  assumes "\<not> isWhiteSpace a" "0 < n"
  shows "trim (replicate n a @ replicate m (CHR '' '')) = replicate n a"
proof -
  obtain k where n: "n = Suc k" using assms(2) by (cases n) auto
  have sp: "isWhiteSpace (CHR '' '')" by (simp add: isWhiteSpace_def)
  have 1: "dropWhile isWhiteSpace (replicate n a @ replicate m (CHR '' '')) =
             replicate n a @ replicate m (CHR '' '')"
    using assms(1) by (simp add: n)
  have 2: "dropWhile isWhiteSpace (replicate m (CHR '' '') @ replicate n a) = replicate n a"
  proof -
    have "dropWhile isWhiteSpace (replicate m (CHR '' '') @ replicate n a) =
            dropWhile isWhiteSpace (replicate n a)"
      by (rule dropWhile_append2) (simp add: sp)
    then show ?thesis using assms(1) by (simp add: n)
  qed
  show ?thesis by (simp add: trim_def 1 2)
qed

lemma prefix_hd_in_set: "pat \<noteq> [] \<Longrightarrow> prefix pat (drop i s) \<Longrightarrow> hd pat \<in> set s"
proof -
  assume "pat \<noteq> []" and "prefix pat (drop i s)"
  then have "hd pat \<in> set (drop i s)"
    by (cases pat) (auto simp: prefix_def)
  then show ?thesis by (rule in_set_dropD)
qed

lemma lastIndexFrom_absent:
  "pat \<noteq> [] \<Longrightarrow> hd pat \<notin> set s \<Longrightarrow> lastIndexFrom s pat i = - 1"
proof (induction i)
  case 0
  then show ?case using prefix_hd_in_set [of pat 0 s] by auto
next
  case (Suc i)
  then show ?case using prefix_hd_in_set [of pat "Suc i" s] by auto
qed

lemma lastIndexOf_absent:
  "pat \<noteq> [] \<Longrightarrow> hd pat \<notin> set s \<Longrightarrow> lastIndexOf s pat = - 1"
  by (simp add: lastIndexOf_def lastIndexFrom_absent)

text \<open>
  The text of 802 characters used below: 150 letters, 651 spaces, one letter. Its first
  window of 800 characters trims to the 150 letters, which is exactly the overlap.
\<close>

lemma cutChunk_padded:
  "cutChunk (replicate 150 (CHR ''a'') @ replicate 651 (CHR '' '') @ ''b'') 800 0 =
     replicate 150 (CHR ''a'')"
proof -
  let ?t = "replicate 150 (CHR ''a'') @ replicate 651 (CHR '' '') @ ''b''"
  have len: "length ?t = 802" by simp
  have sl: "slice ?t 0 800 = replicate 150 (CHR ''a'') @ replicate 650 (CHR '' '')"
    by (simp add: slice_def)
  have tr: "trim (slice ?t 0 800) = replicate 150 (CHR ''a'')"
    unfolding sl by (rule trim_padded) (simp_all add: isWhiteSpace_def)
  have l1: "lastIndexOf (replicate 150 (CHR ''a'')) ''. '' = - 1"
    by (rule lastIndexOf_absent) simp_all
  have l2: "lastIndexOf (replicate 150 (CHR ''a'')) [CHR 0x0A] = - 1"
    by (rule lastIndexOf_absent) simp_all
  have "cutChunk ?t 800 0 =
          (let fin = min (0 + int 800) (int (length ?t));
               chunk = trim (slice ?t 0 fin)
           in if fin < int (length ?t) then
                (let sentenceEnd = lastIndexOf chunk ''. '';
                     paragraphEnd = lastIndexOf chunk [CHR 0x0A];
                     breakPoint = max sentenceEnd paragraphEnd
                 in if real_of_int breakPoint > double (real 800 * double 0.7)
                    then trim (slice chunk 0 (breakPoint + 1)) else chunk)
              else chunk)"
    by (rule cutChunk_def)
  also have "\<dots> = replicate 150 (CHR ''a'')"
    unfolding len by (simp add: tr l1 l2 double_products)
  finally show ?thesis .
qed

lemma chunkLoop_padded_never_returns:
  assumes "chunkLoop t cs ov st ix ch = Some y"
  shows "\<not> (t = replicate 150 (CHR ''a'') @ replicate 651 (CHR '' '') @ ''b'' \<and>
            cs = 800 \<and> ov = 150 \<and> st = 0)"
proof (rule chunkLoop.raw_induct
    [where P = "\<lambda>t cs ov st ix ch y.
        \<not> (t = replicate 150 (CHR ''a'') @ replicate 651 (CHR '' '') @ ''b'' \<and>
           cs = 800 \<and> ov = 150 \<and> st = 0)",
      OF _ assms], goal_cases)
  case (1 f t cs ov st ix ch y)
  let ?t = "replicate 150 (CHR ''a'') @ replicate 651 (CHR '' '') @ ''b''"
  show ?case
  proof
    assume bad: "t = ?t \<and> cs = 800 \<and> ov = 150 \<and> st = 0"
    have len: "length ?t = 802" by simp
    from 1(2) bad have "f ?t 800 150 0 (ix + 1)
        (ch @ [\<lparr>chunkText = replicate 150 (CHR ''a''), chunkIndex = ix\<rparr>]) = Some y"
      by (simp add: cutChunk_padded Let_def)
    from 1(1) [OF this] show False by simp
  qed
qed

text \<open>
  C2. The claim is that the loop returns for every text longer than the target size,
  because every pass moves \<open>start\<close> forward. On the text of 150 letters, 651 spaces and one
  more letter the first chunk trims to 150 characters, \<open>start\<close> stays at 0, and
  \<open>chunkDocument(text, 800, 150)\<close> never returns.
\<close>

theorem chunkDocument_padded_diverges:
  "chunkDocument (replicate 150 (CHR ''a'') @ replicate 651 (CHR '' '') @ ''b'') 800 150 = None"
proof (cases "chunkDocument (replicate 150 (CHR ''a'') @ replicate 651 (CHR '' '') @ ''b'') 800 150")
  case None
  then show ?thesis .
next
  case (Some y)
  then have "chunkLoop (replicate 150 (CHR ''a'') @ replicate 651 (CHR '' '') @ ''b'')
               800 150 0 0 [] = Some y"
    by (simp add: chunkDocument_def)
  from chunkLoop_padded_never_returns [OF this] show ?thesis by simp
qed

section \<open>Embedder: properties\<close>

text \<open>The shift-and-subtract step of \<open>simpleHash\<close> is multiplication by 31, so
  \<open>simpleHash\<close> is the absolute value of the rolling hash.\<close>

lemma hashStep_poly: "hashStep h c = toInt32 (h * 31 + charCodeAt c)"
proof -
  let ?M = "2 ^ 32 :: int"
  have "(toInt32 (h * 32) - h + charCodeAt c + 2 ^ 31) mod ?M =
          ((h * 32 + 2 ^ 31) mod ?M + (charCodeAt c - h)) mod ?M"
    by (simp add: toInt32_def algebra_simps)
  also have "\<dots> = ((h * 32 + 2 ^ 31) + (charCodeAt c - h)) mod ?M"
    by (rule mod_add_left_eq)
  also have "\<dots> = (h * 31 + charCodeAt c + 2 ^ 31) mod ?M"
    by (simp add: algebra_simps)
  finally show ?thesis
    unfolding hashStep_def toInt32_def [of "toInt32 (h * 32) - h + charCodeAt c"]
      toInt32_def [of "h * 31 + charCodeAt c"] by simp
qed

lemma foldl_hashStep:
  "foldl hashStep h str = foldl (\<lambda>h c. toInt32 (h * 31 + charCodeAt c)) h str"
  by (induction str arbitrary: h) (simp_all add: hashStep_poly)

lemma simpleHash_abs: "simpleHash str = \<bar>rollingHash32 str\<bar>"
  by (simp add: simpleHash_def rollingHash32_def foldl_hashStep)

lemma rollingHash32_zsjpxag: "rollingHash32 ''zsjpxag'' = - 1"
  by (simp add: rollingHash32_def toInt32_def charCodeAt_def)

text \<open>
  C8, as stated: component \<open>i\<close> is \<open>sin(h+i)*0.1 + cos(2h+i)*0.05\<close> with \<open>h\<close> the wrapped
  rolling hash. The text \<open>zsjpxag\<close> has the rolling hash \<open>-1\<close>; the source takes
  \<^verbatim>\<open>Math.abs\<close> of it, and component 0 is not the stated value.
\<close>

theorem generateEmbedding_signed_hash_counterexample:
  "generateEmbedding ''zsjpxag'' ! 0 \<noteq>
     sin (of_int (rollingHash32 ''zsjpxag'' + 0)) * 0.1 +
     cos (of_int (2 * rollingHash32 ''zsjpxag'' + 0)) * 0.05"
proof -
  have "sin (1::real) > 0"
    by (rule sin_gt_zero) (use pi_ge_two in simp_all)
  moreover have "generateEmbedding ''zsjpxag'' ! 0 = sin 1 * 0.1 + cos 2 * 0.05"
    by (simp add: generateEmbedding_def simpleHash_abs rollingHash32_zsjpxag)
  ultimately show ?thesis
    by (simp add: rollingHash32_zsjpxag)
qed

text \<open>
  C8, amended. \<open>generateEmbedding\<close> is a function of the text alone and returns 384
  components; component \<open>i\<close> is \<open>sin(h+i)*0.1 + cos(2h+i)*0.05\<close> where \<open>h\<close> is the absolute
  value of the rolling hash \<open>h = h*31 + charCode\<close> wrapped to signed 32 bits.
\<close>

theorem generateEmbedding_formula:
  "length (generateEmbedding txt) = 384 \<and>
   (\<forall>i < 384. generateEmbedding txt ! i =
      sin (of_int (\<bar>rollingHash32 txt\<bar> + int i)) * 0.1 +
      cos (of_int (2 * \<bar>rollingHash32 txt\<bar> + int i)) * 0.05)"
  by (simp add: generateEmbedding_def simpleHash_abs Let_def mult.commute)

theorem generateEmbedding_formula_witness:
  "(5::nat) < 384 \<and> rollingHash32 ''abc'' = 96354 \<and>
   generateEmbedding ''abc'' ! 5 = sin 96359 * 0.1 + cos 192713 * 0.05"
  using generateEmbedding_formula [of "''abc''"]
  by (simp add: rollingHash32_def toInt32_def charCodeAt_def)

section \<open>Answer synthesizer: properties\<close>

text \<open>The first \<open>4n + 2\<close> base64 characters are those of the first \<open>3n + 2\<close> bytes; for
  \<open>n = 12\<close>, the first 50 characters are those of the first 38 bytes.\<close>

lemma base64_take:
  "take (4 * n + 2) (base64 xs) = take (4 * n + 2) (base64 (take (3 * n + 2) xs))"
proof (induction n arbitrary: xs)
  case 0
  show ?case
  proof (cases xs rule: base64.cases)
    case (1 a b c rest)
    then show ?thesis by simp
  qed simp_all
next
  case (Suc n)
  have four: "4 * Suc n + 2 = Suc (Suc (Suc (Suc (4 * n + 2))))" by simp
  have three: "3 * Suc n + 2 = Suc (Suc (Suc (3 * n + 2)))" by simp
  show ?case
  proof (cases xs rule: base64.cases)
    case (1 a b c rest)
    then show ?thesis
      unfolding four three using Suc.IH [of rest] by simp
  qed simp_all
qed

lemma base64_take50:
  assumes "take 38 xs = take 38 ys"
  shows "take 50 (base64 xs) = take 50 (base64 ys)"
proof -
  have e1: "4 * 12 + 2 = (50::nat)" and e2: "3 * 12 + 2 = (38::nat)" by simp_all
  have "take 50 (base64 zs) = take 50 (base64 (take 38 zs))" for zs
    using base64_take [of 12 zs] unfolding e1 e2 .
  from this [of xs] this [of ys] assms show ?thesis by (simp only:)
qed

lemma answerCacheKey_prefix:
  assumes "take 38 (utf8Bytes q1) = take 38 (utf8Bytes q2)"
  shows "answerCacheKey roomId q1 ws = answerCacheKey roomId q2 ws"
  unfolding answerCacheKey_def base64_take50 [OF assms] ..

text \<open>A cached answer is returned as it is; an answer that leaves the \<open>try\<close> block is in
  the cache under the key of the call.\<close>

lemma generateAnswerBody_hit:
  "redisGet env (redis w) (answerCacheKey roomId question ws) = Inr (Some r) \<Longrightarrow>
     generateAnswerBody env w question roomId ws = (Inr r, w)"
  by (simp add: generateAnswerBody_def)

lemma redisGet_after_setEx:
  "redisSetEx env st key ttl r = Inr st' \<Longrightarrow> redisGet env st' key = Inr (Some r)"
  by (auto simp: redisSetEx_def redisGet_def split: if_splits)

lemma cacheAndReturn_cached:
  "cacheAndReturn env w key results r0 = (Inr r, w') \<Longrightarrow>
     redisGet env (redis w') key = Inr (Some r)"
  by (auto simp: cacheAndReturn_def Let_def redisGet_after_setEx split: sum.splits)

lemma generateAnswerBody_miss:
  assumes "redisGet env (redis w) (answerCacheKey roomId question ws) = Inr None"
  shows "generateAnswerBody env w question roomId ws =
     (if retrieveRelevantChunks env w question 3 = [] \<and>
         performWebSearch env (retrieveRelevantChunks env w question 3) question ws = []
      then
        (if \<not> dbUp env then (Inl (Error ''database: not connected''), w)
         else cacheAndReturn env w (answerCacheKey roomId question ws)
                (performWebSearch env (retrieveRelevantChunks env w question 3) question ws)
                (cannedResponse ws (isWebSearchRequest question) (length (findCompleted w))))
      else
        (case generateContent env
                (buildPrompt (retrieveRelevantChunks env w question 3)
                   (performWebSearch env (retrieveRelevantChunks env w question 3) question ws)
                   question ws) of
           Inl e \<Rightarrow> (Inl e, w\<lparr>generationCalls := generationCalls w + 1\<rparr>)
         | Inr txt \<Rightarrow>
             cacheAndReturn env (w\<lparr>generationCalls := generationCalls w + 1\<rparr>)
               (answerCacheKey roomId question ws)
               (performWebSearch env (retrieveRelevantChunks env w question 3) question ws)
               (shapeResponse txt (retrieveRelevantChunks env w question 3)
                  (performWebSearch env (retrieveRelevantChunks env w question 3) question ws)
                  ws)))"
  unfolding generateAnswerBody_def Let_def assms by simp

lemma generateAnswerBody_cached:
  assumes "generateAnswerBody env w question roomId ws = (Inr r, w')"
  shows "redisGet env (redis w') (answerCacheKey roomId question ws) = Inr (Some r)"
proof -
  let ?key = "answerCacheKey roomId question ws"
  let ?rc = "retrieveRelevantChunks env w question 3"
  let ?wr = "performWebSearch env ?rc question ws"
  let ?w1 = "w\<lparr>generationCalls := generationCalls w + 1\<rparr>"
  let ?gen = "generateContent env (buildPrompt ?rc ?wr question ws)"
  show ?thesis
  proof (cases "redisGet env (redis w) ?key")
    case (Inl e)
    with assms show ?thesis by (simp add: generateAnswerBody_def)
  next
    case (Inr cached)
    show ?thesis
    proof (cases cached)
      case (Some c)
      with Inr assms show ?thesis by (simp add: generateAnswerBody_def)
    next
      case None
      note body = generateAnswerBody_miss [OF Inr [unfolded None]]
      show ?thesis
      proof (cases "?rc = [] \<and> ?wr = []")
        case True
        have "dbUp env"
        proof (rule ccontr)
          assume "\<not> dbUp env"
          with assms show False unfolding body if_P [OF True] by simp
        qed
        with assms have
          "cacheAndReturn env w ?key ?wr
             (cannedResponse ws (isWebSearchRequest question) (length (findCompleted w))) =
           (Inr r, w')"
          unfolding body if_P [OF True] by simp
        then show ?thesis by (rule cacheAndReturn_cached)
      next
        case False
        show ?thesis
        proof (cases ?gen)
          case (Inl e)
          with assms show ?thesis unfolding body if_not_P [OF False] by simp
        next
          case (Inr generated)
          with assms have
            "cacheAndReturn env ?w1 ?key ?wr (shapeResponse generated ?rc ?wr ws) = (Inr r, w')"
            unfolding body if_not_P [OF False] by simp
          then show ?thesis by (rule cacheAndReturn_cached)
        qed
      qed
    qed
  qed
qed

text \<open>A read that succeeds depends on the store alone, and a failing \<open>try\<close> block leaves
  the store as it was.\<close>

lemma redisGet_other_env:
  "redisGet env st key = Inr x \<Longrightarrow> redisUp env' \<Longrightarrow> redisGet env' st key = Inr x"
  by (simp add: redisGet_def split: if_splits)

lemma cacheAndReturn_failed:
  "cacheAndReturn env w key results r0 = (Inl e, w') \<Longrightarrow> w' = w"
  by (auto simp: cacheAndReturn_def Let_def split: sum.splits)

lemma generateAnswerBody_failed:
  assumes "generateAnswerBody env w question roomId ws = (Inl e, w')"
  shows "redis w' = redis w"
proof -
  let ?key = "answerCacheKey roomId question ws"
  let ?rc = "retrieveRelevantChunks env w question 3"
  let ?wr = "performWebSearch env ?rc question ws"
  let ?w1 = "w\<lparr>generationCalls := generationCalls w + 1\<rparr>"
  let ?gen = "generateContent env (buildPrompt ?rc ?wr question ws)"
  show ?thesis
  proof (cases "redisGet env (redis w) ?key")
    case (Inl e')
    with assms show ?thesis by (simp add: generateAnswerBody_def)
  next
    case (Inr cached)
    show ?thesis
    proof (cases cached)
      case (Some c)
      with Inr assms show ?thesis by (simp add: generateAnswerBody_def)
    next
      case None
      note body = generateAnswerBody_miss [OF Inr [unfolded None]]
      show ?thesis
      proof (cases "?rc = [] \<and> ?wr = []")
        case True
        show ?thesis
        proof (cases "dbUp env")
          case False
          with assms show ?thesis unfolding body if_P [OF True] by simp
        next
          case up: True
          with assms have
            "cacheAndReturn env w ?key ?wr
               (cannedResponse ws (isWebSearchRequest question) (length (findCompleted w))) =
             (Inl e, w')"
            unfolding body if_P [OF True] by simp
          from cacheAndReturn_failed [OF this] show ?thesis by simp
        qed
      next
        case False
        show ?thesis
        proof (cases ?gen)
          case (Inl e')
          with assms show ?thesis unfolding body if_not_P [OF False] by auto
        next
          case (Inr generated)
          with assms have
            "cacheAndReturn env ?w1 ?key ?wr (shapeResponse generated ?rc ?wr ws) = (Inl e, w')"
            unfolding body if_not_P [OF False] by simp
          from cacheAndReturn_failed [OF this] show ?thesis by simp
        qed
      qed
    qed
  qed
qed

text \<open>
  C3, amended. The cache key is a function of the room, the question and the web search
  flag alone. If a call of \<open>generateAnswer\<close> leaves its \<open>try\<close> block with an answer, a second
  call with the same arguments on the world the first call left, with Redis reachable, is
  a cache hit: whatever the database, the web search and the generation collaborators of
  that call would do, it returns the same answer and leaves the world as it is, so it makes
  no generation call. With Redis down the second call returns the apology. A call whose
  \<open>try\<close> block fails returns the apology and leaves the cache as it was.
\<close>

theorem generateAnswer_second_call_hit:
  "(generateAnswerBody env w question roomId ws = (Inr r, w') \<and> redisUp env' \<longrightarrow>
      generateAnswer env' w' question roomId ws = (Inr r, w')) \<and>
   (generateAnswerBody env w question roomId ws = (Inr r, w') \<and> \<not> redisUp env' \<longrightarrow>
      generateAnswer env' w' question roomId ws = (Inr apologyResponse, w')) \<and>
   (generateAnswerBody env w question roomId ws = (Inl e, w') \<longrightarrow>
      generateAnswer env w question roomId ws = (Inr apologyResponse, w') \<and>
      redis w' = redis w)"
proof -
  have hit: "generateAnswer env' w' question roomId ws = (Inr r, w')"
    if "generateAnswerBody env w question roomId ws = (Inr r, w')" and "redisUp env'"
  proof -
    from generateAnswerBody_cached [OF that(1)]
    have "redisGet env' (redis w') (answerCacheKey roomId question ws) = Inr (Some r)"
      using that(2) by (rule redisGet_other_env)
    from generateAnswerBody_hit [OF this] show ?thesis by (simp add: generateAnswer_def)
  qed
  have down: "generateAnswer env' w' question roomId ws = (Inr apologyResponse, w')"
    if "\<not> redisUp env'"
    using that by (simp add: generateAnswer_def generateAnswerBody_def redisGet_def)
  have failed: "generateAnswer env w question roomId ws = (Inr apologyResponse, w') \<and>
      redis w' = redis w"
    if "generateAnswerBody env w question roomId ws = (Inl e, w')"
    using that generateAnswerBody_failed [OF that] by (simp add: generateAnswer_def)
  from hit down failed show ?thesis by blast
qed

text \<open>
  C4. \<open>generateAnswer\<close> never throws: for every input and all collaborators it returns a
  response; when the \<open>try\<close> block fails, the response is the apology, whose sources and
  web results are empty.
\<close>

theorem generateAnswer_never_throws:
  "(\<exists>r. fst (generateAnswer env w question roomId ws) = Inr r) \<and>
   (\<forall>e. fst (generateAnswerBody env w question roomId ws) = Inl e \<longrightarrow>
      fst (generateAnswer env w question roomId ws) = Inr apologyResponse) \<and>
   sources apologyResponse = [] \<and> webResults apologyResponse = []"
proof -
  obtain res w' where body: "generateAnswerBody env w question roomId ws = (res, w')"
    by (cases "generateAnswerBody env w question roomId ws")
  show ?thesis
    by (cases res) (simp_all add: generateAnswer_def body apologyResponse_def)
qed


text \<open>The failures one by one: Redis down and a failing generation end in the apology; a
  failing web search leaves the answer without web results.\<close>

lemma generateAnswer_redis_down:
  "\<not> redisUp env \<Longrightarrow> generateAnswer env w question roomId ws = (Inr apologyResponse, w)"
  by (simp add: generateAnswer_def generateAnswerBody_def redisGet_def)

lemma generateAnswer_generation_fails:
  assumes "redisGet env (redis w) (answerCacheKey roomId question ws) = Inr None"
    and "retrieveRelevantChunks env w question 3 \<noteq> []"
    and "\<And>p. generateContent env p = Inl (Error msg)"
  shows "generateAnswer env w question roomId ws =
           (Inr apologyResponse, w\<lparr>generationCalls := generationCalls w + 1\<rparr>)"
proof -
  from assms(2) have no: "\<not> (retrieveRelevantChunks env w question 3 = [] \<and>
      performWebSearch env (retrieveRelevantChunks env w question 3) question ws = [])"
    by simp
  show ?thesis
    unfolding generateAnswer_def generateAnswerBody_miss [OF assms(1)] if_not_P [OF no] assms(3)
    by simp
qed

lemma performWebSearch_search_fails:
  "(\<And>req n. searchWeb env req n = Inl e) \<Longrightarrow> performWebSearch env cs question ws = []"
  by (simp add: performWebSearch_def)

text \<open>The model run on the example inputs.\<close>

lemma exampleEnv_simps [simp]:
  "redisUp (exampleEnv gen) = True" "dbUp (exampleEnv gen) = True"
  "searchWeb (exampleEnv gen) req n = Inl (Error ''Web search is not configured'')"
  "generateContent (exampleEnv gen) = gen"
  by (simp_all add: exampleEnv_def)

lemma invoiceWorld_simps [simp]:
  "redis (invoiceWorld n) = []" "documents (invoiceWorld n) = [invoiceDoc]"
  "generationCalls (invoiceWorld n) = n"
  by (simp_all add: invoiceWorld_def)

lemma invoice_question_key:
  "answerCacheKey ''room1'' ''What is the invoice total?'' False =
     ''answer:room1:V2hhdCBpcyB0aGUgaW52b2ljZSB0b3RhbD8=:wsfalse''"
  by (simp add: answerCacheKey_def utf8Bytes_def base64Char_def)

lemma invoice_fallback0:
  "fallbackCandidate invoiceDoc ''What is the invoice total?'' (docChunks invoiceDoc ! 0) =
     [invoiceCandidates ! 0]"
  by (simp add: fallbackCandidate_def fallbackSimilarity_def lexicalSimilarity_def
      toLowerCase_def invoiceDoc_def invoiceCandidates_def double_eval)

lemma invoice_fallback1:
  "fallbackCandidate invoiceDoc ''What is the invoice total?'' (docChunks invoiceDoc ! 1) =
     [invoiceCandidates ! 1]"
  by (simp add: fallbackCandidate_def fallbackSimilarity_def lexicalSimilarity_def
      toLowerCase_def invoiceDoc_def invoiceCandidates_def double_eval)

lemma invoice_retrieve:
  "retrieveRelevantChunks (exampleEnv gen) (invoiceWorld n) ''What is the invoice total?'' 3 =
     invoiceCandidates"
proof -
  let ?q = "''What is the invoice total?''"
  have notpdf: "docFileType invoiceDoc \<noteq> ''.pdf''" by (simp add: invoiceDoc_def)
  have p0: "processChunk (exampleEnv gen) [] ?q invoiceDoc 0 = [invoiceCandidates ! 0]"
    using notpdf invoice_fallback0 by (simp add: processChunk_def redisHGetAll_def)
  have p1: "processChunk (exampleEnv gen) [] ?q invoiceDoc (Suc 0) = [invoiceCandidates ! 1]"
    using notpdf invoice_fallback1 by (simp add: processChunk_def redisHGetAll_def)
  have len: "length (docChunks invoiceDoc) = 2" by (simp add: invoiceDoc_def)
  have fc: "findCompleted (invoiceWorld n) = [invoiceDoc]"
    by (simp add: findCompleted_def) (simp add: invoiceDoc_def)
  have up: "[0 ..< 2] = [0, Suc 0]" by (simp add: upt_rec)
  have "concat (map (processChunk (exampleEnv gen) [] ?q invoiceDoc) [0 ..< 2]) =
          invoiceCandidates"
    unfolding up by (simp add: p0 p1) (simp add: invoiceCandidates_def)
  then show ?thesis
    by (simp add: retrieveRelevantChunks_def fc len) (simp add: invoiceCandidates_def)
qed

lemma invoice_no_search: "performWebSearch env cs ''What is the invoice total?'' False = []"
  by (simp add: performWebSearch_def)

lemma invoice_shape:
  "shapeResponse ''The invoice total is $450.'' invoiceCandidates [] False = invoiceAnswer"
  by (simp add: shapeResponse_def invoiceCandidates_def invoiceAnswer_def toSourceEntry_def
      round2_def mathRound_def double_eval)

lemma invoice_miss:
  "redisGet (exampleEnv gen) (redis (invoiceWorld n))
     (answerCacheKey ''room1'' ''What is the invoice total?'' False) = Inr None"
  by (simp add: redisGet_def)

lemma invoice_body:
  "generateAnswerBody (exampleEnv gen) (invoiceWorld n) ''What is the invoice total?''
     ''room1'' False =
     (case gen (DocumentOnlyPrompt invoiceCandidates ''What is the invoice total?'' False) of
        Inl e \<Rightarrow> (Inl e, invoiceWorld (n + 1))
      | Inr generated \<Rightarrow>
          (Inr (shapeResponse generated invoiceCandidates [] False),
           \<lparr>redis = [(answerCacheKey ''room1'' ''What is the invoice total?'' False, 3600,
                       StringValue (shapeResponse generated invoiceCandidates [] False))],
            documents = [invoiceDoc], generationCalls = n + 1\<rparr>))"
  unfolding generateAnswerBody_miss [OF invoice_miss] invoice_retrieve invoice_no_search
  by (simp add: invoiceCandidates_def buildPrompt_def cacheAndReturn_def redisSetEx_def
      invoiceWorld_def split: sum.splits)

lemma invoice_body_ok:
  "generateAnswerBody (exampleEnv (\<lambda>p. Inr ''The invoice total is $450.'')) (invoiceWorld 0)
     ''What is the invoice total?'' ''room1'' False =
     (Inr invoiceAnswer,
      \<lparr>redis = [invoiceAnswerEntry], documents = [invoiceDoc], generationCalls = 1\<rparr>)"
  unfolding invoice_body
  by (simp add: invoice_shape invoice_question_key invoiceAnswerEntry_def)

lemma invoice_body_failed:
  "generateAnswerBody (exampleEnv (\<lambda>p. Inl (Error ''generation failed''))) (invoiceWorld n)
     ''What is the invoice total?'' ''room1'' False =
     (Inl (Error ''generation failed''), invoiceWorld (n + 1))"
  unfolding invoice_body by simp

theorem generateAnswer_second_call_hit_witness:
  "generateAnswerBody (exampleEnv (\<lambda>p. Inr ''The invoice total is $450.'')) (invoiceWorld 0)
     ''What is the invoice total?'' ''room1'' False =
     (Inr invoiceAnswer,
      \<lparr>redis = [invoiceAnswerEntry], documents = [invoiceDoc], generationCalls = 1\<rparr>) \<and>
   redisUp (exampleEnv (\<lambda>p. Inl (Error ''generation failed''))) \<and>
   generateAnswer (exampleEnv (\<lambda>p. Inl (Error ''generation failed'')))
     \<lparr>redis = [invoiceAnswerEntry], documents = [invoiceDoc], generationCalls = 1\<rparr>
     ''What is the invoice total?'' ''room1'' False =
     (Inr invoiceAnswer,
      \<lparr>redis = [invoiceAnswerEntry], documents = [invoiceDoc], generationCalls = 1\<rparr>) \<and>
   generateAnswerBody (exampleEnv (\<lambda>p. Inl (Error ''generation failed''))) (invoiceWorld 0)
     ''What is the invoice total?'' ''room1'' False =
     (Inl (Error ''generation failed''), invoiceWorld 1) \<and>
   generateAnswer (exampleEnv (\<lambda>p. Inl (Error ''generation failed''))) (invoiceWorld 0)
     ''What is the invoice total?'' ''room1'' False = (Inr apologyResponse, invoiceWorld 1) \<and>
   redis (invoiceWorld 1) = redis (invoiceWorld 0)"
proof -
  let ?ok = "exampleEnv (\<lambda>p. Inr ''The invoice total is $450.'')"
  let ?bad = "exampleEnv (\<lambda>p. Inl (Error ''generation failed''))"
  let ?q = "''What is the invoice total?''"
  let ?w1 = "\<lparr>redis = [invoiceAnswerEntry], documents = [invoiceDoc], generationCalls = 1\<rparr>"
  have up: "redisUp ?bad" by simp
  have bad: "generateAnswerBody ?bad (invoiceWorld 0) ?q ''room1'' False =
               (Inl (Error ''generation failed''), invoiceWorld 1)"
    using invoice_body_failed [of 0] by simp
  from generateAnswer_second_call_hit
    [of ?ok "invoiceWorld 0" ?q "''room1''" False invoiceAnswer ?w1 ?bad]
    invoice_body_ok up
  have second: "generateAnswer ?bad ?w1 ?q ''room1'' False = (Inr invoiceAnswer, ?w1)"
    by blast
  from generateAnswer_second_call_hit
    [of ?bad "invoiceWorld 0" ?q "''room1''" False _ _ _ "Error ''generation failed''"] bad
  have third: "generateAnswer ?bad (invoiceWorld 0) ?q ''room1'' False =
                 (Inr apologyResponse, invoiceWorld 1) \<and>
               redis (invoiceWorld 1) = redis (invoiceWorld 0)"
    by blast
  from invoice_body_ok up second bad third show ?thesis by (intro conjI) blast+
qed

text \<open>
  C3, as stated, claims a cache hit on the second of any two identical calls. When the
  generation collaborator fails, the first call returns the apology and caches nothing;
  the second call is a miss and calls generation again.
\<close>

theorem generateAnswer_failed_call_not_cached:
  "generateAnswer (exampleEnv (\<lambda>p. Inl (Error ''generation failed''))) (invoiceWorld 0)
     ''What is the invoice total?'' ''room1'' False = (Inr apologyResponse, invoiceWorld 1) \<and>
   generateAnswer (exampleEnv (\<lambda>p. Inl (Error ''generation failed''))) (invoiceWorld 1)
     ''What is the invoice total?'' ''room1'' False = (Inr apologyResponse, invoiceWorld 2)"
  by (simp add: generateAnswer_def invoice_body_failed)

theorem generateAnswer_never_throws_witness:
  "fst (generateAnswerBody (exampleEnv (\<lambda>p. Inl (Error ''generation failed'')))
          (invoiceWorld 0) ''What is the invoice total?'' ''room1'' False) =
     Inl (Error ''generation failed'') \<and>
   fst (generateAnswer (exampleEnv (\<lambda>p. Inl (Error ''generation failed'')))
          (invoiceWorld 0) ''What is the invoice total?'' ''room1'' False) =
     Inr apologyResponse \<and>
   sources apologyResponse = [] \<and> webResults apologyResponse = []"
  using generateAnswer_never_throws
    [of "exampleEnv (\<lambda>p. Inl (Error ''generation failed''))" "invoiceWorld 0"
        "''What is the invoice total?''" "''room1''" False]
  by (simp add: invoice_body_failed)

text \<open>
  C5, as stated, claims a source list with no two entries for the same document. Both
  chunks of the example document match the question, and the answer lists the document
  twice.
\<close>

theorem sources_not_deduplicated:
  "generateAnswer (exampleEnv (\<lambda>p. Inr ''The invoice total is $450.'')) (invoiceWorld 0)
     ''What is the invoice total?'' ''room1'' False =
     (Inr invoiceAnswer,
      \<lparr>redis = [invoiceAnswerEntry], documents = [invoiceDoc], generationCalls = 1\<rparr>) \<and>
   map srcFilename (sources invoiceAnswer) = [''invoice.txt'', ''invoice.txt'']"
  by (simp add: generateAnswer_def invoice_body_ok) (simp add: invoiceAnswer_def)

text \<open>The shape of a generated answer.\<close>

lemma generateAnswerBody_generated:
  assumes miss: "redisGet env (redis w) (answerCacheKey roomId question ws) = Inr None"
    and ok: "generateAnswerBody env w question roomId ws = (Inr r, w')"
    and some: "retrieveRelevantChunks env w question 3 \<noteq> []"
  shows "\<exists>generated. r = shapeResponse generated (retrieveRelevantChunks env w question 3)
           (performWebSearch env (retrieveRelevantChunks env w question 3) question ws) ws"
proof -
  let ?rc = "retrieveRelevantChunks env w question 3"
  let ?wr = "performWebSearch env ?rc question ws"
  let ?gen = "generateContent env (buildPrompt ?rc ?wr question ws)"
  from some have no: "\<not> (?rc = [] \<and> ?wr = [])" by simp
  note body = generateAnswerBody_miss [OF miss, unfolded if_not_P [OF no]]
  show ?thesis
  proof (cases ?gen)
    case (Inl e)
    with ok show ?thesis unfolding body by simp
  next
    case (Inr generated)
    with ok have "r = shapeResponse generated ?rc ?wr ws"
      unfolding body by (auto simp: cacheAndReturn_def Let_def split: sum.splits)
    then show ?thesis by blast
  qed
qed

text \<open>The model run on the question "Is the invoice total due?": three of its four words
  occur in the first chunk, two in the second.\<close>

lemma due_fallback0:
  "fallbackCandidate invoiceDoc ''Is the invoice total due?'' (docChunks invoiceDoc ! 0) =
     [dueCandidates ! 0]"
  by (simp add: fallbackCandidate_def fallbackSimilarity_def lexicalSimilarity_def
      toLowerCase_def invoiceDoc_def dueCandidates_def double_eval)

lemma due_fallback1:
  "fallbackCandidate invoiceDoc ''Is the invoice total due?'' (docChunks invoiceDoc ! 1) =
     [dueCandidates ! 1]"
  by (simp add: fallbackCandidate_def fallbackSimilarity_def lexicalSimilarity_def
      toLowerCase_def invoiceDoc_def dueCandidates_def double_eval)

lemma due_retrieve:
  "retrieveRelevantChunks (exampleEnv gen) (invoiceWorld n) ''Is the invoice total due?'' 3 =
     dueCandidates"
proof -
  let ?q = "''Is the invoice total due?''"
  have notpdf: "docFileType invoiceDoc \<noteq> ''.pdf''" by (simp add: invoiceDoc_def)
  have p0: "processChunk (exampleEnv gen) [] ?q invoiceDoc 0 = [dueCandidates ! 0]"
    using notpdf due_fallback0 by (simp add: processChunk_def redisHGetAll_def)
  have p1: "processChunk (exampleEnv gen) [] ?q invoiceDoc (Suc 0) = [dueCandidates ! 1]"
    using notpdf due_fallback1 by (simp add: processChunk_def redisHGetAll_def)
  have len: "length (docChunks invoiceDoc) = 2" by (simp add: invoiceDoc_def)
  have fc: "findCompleted (invoiceWorld n) = [invoiceDoc]"
    by (simp add: findCompleted_def) (simp add: invoiceDoc_def)
  have up: "[0 ..< 2] = [0, Suc 0]" by (simp add: upt_rec)
  have "concat (map (processChunk (exampleEnv gen) [] ?q invoiceDoc) [0 ..< 2]) = dueCandidates"
    unfolding up by (simp add: p0 p1) (simp add: dueCandidates_def)
  then show ?thesis
    by (simp add: retrieveRelevantChunks_def fc len) (simp add: dueCandidates_def double_eval)
qed

lemma example_body:
  assumes rc: "retrieveRelevantChunks (exampleEnv gen) (invoiceWorld n) q 3 = cs"
    and ne: "cs \<noteq> []"
  shows "generateAnswerBody (exampleEnv gen) (invoiceWorld n) q room ws =
     (case gen (DocumentOnlyPrompt cs q ws) of
        Inl e \<Rightarrow> (Inl e, invoiceWorld (n + 1))
      | Inr generated \<Rightarrow>
          (Inr (shapeResponse generated cs [] ws),
           \<lparr>redis = [(answerCacheKey room q ws, 3600,
                       StringValue (shapeResponse generated cs [] ws))],
            documents = [invoiceDoc], generationCalls = n + 1\<rparr>))"
proof -
  have miss: "redisGet (exampleEnv gen) (redis (invoiceWorld n)) (answerCacheKey room q ws) =
                Inr None"
    by (simp add: redisGet_def)
  have nosearch: "performWebSearch (exampleEnv gen) cs q ws = []"
    by (rule performWebSearch_search_fails) simp
  show ?thesis
    unfolding generateAnswerBody_miss [OF miss] rc nosearch
    using ne
    by (simp add: buildPrompt_def cacheAndReturn_def redisSetEx_def invoiceWorld_def
        split: sum.splits)
qed

text \<open>
  C5, amended. An answer generated from retrieved passages has one source entry for every
  retrieved passage, in the order of retrieval, with the file name and type of the passage
  and the similarity \<open>Math.round(similarity * 100) / 100\<close>, computed in doubles: the
  product is rounded to a double, a half goes upwards, and the quotient is the double
  nearest to that number of hundredths. It has one web entry for every web result, in
  their order. Neither list is deduplicated: a document retrieved with several passages is
  listed once for each of them.
\<close>

theorem answer_sources_rounded:
  assumes "redisGet env (redis w) (answerCacheKey roomId question ws) = Inr None"
    and "generateAnswerBody env w question roomId ws = (Inr r, w')"
    and "retrieveRelevantChunks env w question 3 \<noteq> []"
  shows "length (sources r) = length (retrieveRelevantChunks env w question 3) \<and>
     (\<forall>i < length (sources r).
        srcFilename (sources r ! i) = candFilename (retrieveRelevantChunks env w question 3 ! i) \<and>
        srcFileType (sources r ! i) = candFileType (retrieveRelevantChunks env w question 3 ! i) \<and>
        srcSimilarity (sources r ! i) =
          double (of_int \<lfloor>double (candSimilarity (retrieveRelevantChunks env w question 3 ! i)
                                     * 100) + 1 / 2\<rfloor> / 100)) \<and>
     length (webResults r) =
       length (performWebSearch env (retrieveRelevantChunks env w question 3) question ws) \<and>
     (\<forall>j < length (webResults r).
        webTitle (webResults r ! j) =
          wrTitle (performWebSearch env (retrieveRelevantChunks env w question 3) question ws ! j) \<and>
        webSource (webResults r ! j) =
          wrSource (performWebSearch env (retrieveRelevantChunks env w question 3) question ws ! j) \<and>
        webUrl (webResults r ! j) =
          wrLink (performWebSearch env (retrieveRelevantChunks env w question 3) question ws ! j))"
proof -
  let ?rc = "retrieveRelevantChunks env w question 3"
  let ?wr = "performWebSearch env ?rc question ws"
  from generateAnswerBody_generated [OF assms] obtain generated where
    r: "r = shapeResponse generated ?rc ?wr ws"
    by blast
  have src: "sources r = map toSourceEntry ?rc" and web: "webResults r = map toWebEntry ?wr"
    unfolding r by (simp_all add: shapeResponse_def)
  have one: "srcFilename (sources r ! i) = candFilename (?rc ! i) \<and>
        srcFileType (sources r ! i) = candFileType (?rc ! i) \<and>
        srcSimilarity (sources r ! i) =
          double (of_int \<lfloor>double (candSimilarity (?rc ! i) * 100) + 1 / 2\<rfloor> / 100)"
    if "i < length (sources r)" for i
    using that by (simp add: src toSourceEntry_def round2_def mathRound_def)
  have two: "webTitle (webResults r ! j) = wrTitle (?wr ! j) \<and>
        webSource (webResults r ! j) = wrSource (?wr ! j) \<and>
        webUrl (webResults r ! j) = wrLink (?wr ! j)"
    if "j < length (webResults r)" for j
    using that by (simp add: web toWebEntry_def)
  have len: "length (sources r) = length ?rc" "length (webResults r) = length ?wr"
    by (simp_all add: src web)
  from len one two show ?thesis by blast
qed

theorem answer_sources_rounded_witness:
  "retrieveRelevantChunks (exampleEnv (\<lambda>p. Inr ''The total is due.'')) (invoiceWorld 0)
     ''Is the invoice total due?'' 3 = dueCandidates \<and>
   candSimilarity (dueCandidates ! 0) = 1182194902184755 / 2251799813685248 \<and>
   fst (generateAnswerBody (exampleEnv (\<lambda>p. Inr ''The total is due.'')) (invoiceWorld 0)
          ''Is the invoice total due?'' ''room1'' False) =
     Inr (shapeResponse ''The total is due.'' dueCandidates [] False) \<and>
   length (sources (shapeResponse ''The total is due.'' dueCandidates [] False)) = 2 \<and>
   srcFilename (sources (shapeResponse ''The total is due.'' dueCandidates [] False) ! 0) =
     ''invoice.txt'' \<and>
   srcSimilarity (sources (shapeResponse ''The total is due.'' dueCandidates [] False) ! 0) =
     double 0.52 \<and>
   srcSimilarity (sources (shapeResponse ''The total is due.'' dueCandidates [] False) ! 1) =
     double 0.35 \<and>
   webResults (shapeResponse ''The total is due.'' dueCandidates [] False) = []"
proof -
  let ?env = "exampleEnv (\<lambda>p. Inr ''The total is due.'')"
  let ?q = "''Is the invoice total due?''"
  let ?r = "shapeResponse ''The total is due.'' dueCandidates [] False"
  let ?w = "\<lparr>redis = [(answerCacheKey ''room1'' ?q False, 3600, StringValue ?r)],
             documents = [invoiceDoc], generationCalls = 0 + 1\<rparr>"
  have rc: "retrieveRelevantChunks ?env (invoiceWorld 0) ?q 3 = dueCandidates"
    by (rule due_retrieve)
  have ne: "dueCandidates \<noteq> []" by (simp add: dueCandidates_def)
  have body: "generateAnswerBody ?env (invoiceWorld 0) ?q ''room1'' False = (Inr ?r, ?w)"
    unfolding example_body [OF rc ne] by simp
  have miss: "redisGet ?env (redis (invoiceWorld 0)) (answerCacheKey ''room1'' ?q False) =
                Inr None"
    by (simp add: redisGet_def)
  from ne have ne': "retrieveRelevantChunks ?env (invoiceWorld 0) ?q 3 \<noteq> []"
    by (simp add: rc)
  note t = answer_sources_rounded [OF miss body ne', unfolded rc]
  from t have len: "length (sources ?r) = 2" by (simp add: dueCandidates_def)
  from t len have e0: "srcFilename (sources ?r ! 0) = candFilename (dueCandidates ! 0)"
    and s0: "srcSimilarity (sources ?r ! 0) =
          double (of_int \<lfloor>double (candSimilarity (dueCandidates ! 0) * 100) + 1 / 2\<rfloor> / 100)"
    and s1: "srcSimilarity (sources ?r ! 1) =
          double (of_int \<lfloor>double (candSimilarity (dueCandidates ! 1) * 100) + 1 / 2\<rfloor> / 100)"
    by simp_all
  have c0: "candSimilarity (dueCandidates ! 0) = 1182194902184755 / 2251799813685248"
    by (simp add: dueCandidates_def double_eval)
  have c1: "candSimilarity (dueCandidates ! 1) = 3152519739159347 / 9007199254740992"
    by (simp add: dueCandidates_def double_eval)
  have f0: "srcFilename (sources ?r ! 0) = ''invoice.txt''"
    unfolding e0 by (simp add: dueCandidates_def)
  have v0: "srcSimilarity (sources ?r ! 0) = double 0.52"
    unfolding s0 c0 by (simp add: double_eval)
  have v1: "srcSimilarity (sources ?r ! 1) = double 0.35"
    unfolding s1 c1 by (simp add: double_eval)
  have web: "webResults ?r = []" by (simp add: shapeResponse_def)
  from body have fb: "fst (generateAnswerBody ?env (invoiceWorld 0) ?q ''room1'' False) = Inr ?r"
    by simp
  from rc c0 fb len f0 v0 v1 web show ?thesis by (intro conjI)
qed

text \<open>
  C9, as stated, takes any two questions that agree on their first 37 bytes. Fifty
  base64 characters cover 37 bytes and the upper four bits of the next one: the two
  questions below agree on 37 bytes and get different keys.
\<close>

theorem answerCacheKey_37_bytes_counterexample:
  "take 37 (utf8Bytes ''What was the invoice total for month April?'') =
     take 37 (utf8Bytes ''What was the invoice total for month September?'') \<and>
   answerCacheKey ''room1'' ''What was the invoice total for month April?'' True =
     ''answer:room1:V2hhdCB3YXMgdGhlIGludm9pY2UgdG90YWwgZm9yIG1vbnRoIE:wstrue'' \<and>
   answerCacheKey ''room1'' ''What was the invoice total for month September?'' True =
     ''answer:room1:V2hhdCB3YXMgdGhlIGludm9pY2UgdG90YWwgZm9yIG1vbnRoIF:wstrue''"
  by (simp add: answerCacheKey_def utf8Bytes_def base64Char_def)

text \<open>
  C9, amended. The key uses the first 50 characters of the base64 text of the question
  only, so any two questions whose UTF-8 bytes agree on the first 38 get the same key in
  the same room with the same flag, and once a call for the first has left an answer in
  the cache, a call for the second returns that answer.
\<close>

theorem answerCacheKey_collision:
  assumes "take 38 (utf8Bytes q1) = take 38 (utf8Bytes q2)"
  shows "answerCacheKey roomId q1 ws = answerCacheKey roomId q2 ws \<and>
     (\<forall>r w'. generateAnswerBody env w q1 roomId ws = (Inr r, w') \<longrightarrow>
        generateAnswer env w' q2 roomId ws = (Inr r, w'))"
proof -
  have key: "answerCacheKey roomId q1 ws = answerCacheKey roomId q2 ws"
    by (rule answerCacheKey_prefix [OF assms])
  have "generateAnswer env w' q2 roomId ws = (Inr r, w')"
    if "generateAnswerBody env w q1 roomId ws = (Inr r, w')" for r w'
  proof -
    from generateAnswerBody_cached [OF that]
    have "redisGet env (redis w') (answerCacheKey roomId q2 ws) = Inr (Some r)"
      unfolding key .
    from generateAnswerBody_hit [OF this] show ?thesis by (simp add: generateAnswer_def)
  qed
  with key show ?thesis by blast
qed

theorem answerCacheKey_collision_witness:
  "''What was the invoice total for month April?'' \<noteq>
     ''What was the invoice total for month August?'' \<and>
   take 38 (utf8Bytes ''What was the invoice total for month April?'') =
     take 38 (utf8Bytes ''What was the invoice total for month August?'') \<and>
   answerCacheKey ''room1'' ''What was the invoice total for month April?'' True =
     answerCacheKey ''room1'' ''What was the invoice total for month August?'' True \<and>
   generateAnswer (exampleEnv (\<lambda>p. Inr ''The invoice total is $450.''))
     \<lparr>redis = [(answerCacheKey ''room1'' ''What was the invoice total for month April?'' True,
                 3600, StringValue invoiceAnswer)],
      documents = [invoiceDoc], generationCalls = 1\<rparr>
     ''What was the invoice total for month August?'' ''room1'' True =
     (Inr invoiceAnswer,
      \<lparr>redis = [(answerCacheKey ''room1'' ''What was the invoice total for month April?'' True,
                  3600, StringValue invoiceAnswer)],
       documents = [invoiceDoc], generationCalls = 1\<rparr>)"
proof -
  let ?q1 = "''What was the invoice total for month April?''"
  let ?q2 = "''What was the invoice total for month August?''"
  let ?w = "\<lparr>redis = [(answerCacheKey ''room1'' ?q1 True, 3600, StringValue invoiceAnswer)],
             documents = [invoiceDoc], generationCalls = 1\<rparr>"
  have pre: "take 38 (utf8Bytes ?q1) = take 38 (utf8Bytes ?q2)"
    by (simp add: utf8Bytes_def)
  have "redisGet (exampleEnv (\<lambda>p. Inr ''The invoice total is $450.'')) (redis ?w) (answerCacheKey ''room1'' ?q1 True) =
          Inr (Some invoiceAnswer)"
    by (simp add: redisGet_def)
  then have body: "generateAnswerBody (exampleEnv (\<lambda>p. Inr ''The invoice total is $450.'')) ?w ?q1 ''room1'' True =
                     (Inr invoiceAnswer, ?w)"
    by (rule generateAnswerBody_hit)
  from answerCacheKey_collision [OF pre, of "''room1''" True "exampleEnv (\<lambda>p. Inr ''The invoice total is $450.'')" ?w] body
  have "answerCacheKey ''room1'' ?q1 True = answerCacheKey ''room1'' ?q2 True"
    and "generateAnswer (exampleEnv (\<lambda>p. Inr ''The invoice total is $450.'')) ?w ?q2 ''room1'' True = (Inr invoiceAnswer, ?w)"
    by blast+
  with pre show ?thesis by simp
qed

section \<open>Document deletion: properties\<close>

text \<open>With Redis up, no chunk key of the deleted document is left in the store.\<close>

lemma chunkKey_prefix: "prefix (''doc:'' @ ident @ '':'') (chunkKey ident i)"
  by (simp add: chunkKey_def)

lemma deleteDocumentFromCache_keys:
  assumes "redisUp env"
  shows "fst ` set (deleteDocumentFromCache env st ident) \<subseteq>
           {k \<in> fst ` set st. \<not> prefix (''doc:'' @ ident @ '':'') k}"
proof -
  let ?pre = "''doc:'' @ ident @ '':''"
  let ?keys = "filter (prefix ?pre) (map fst st)"
  let ?st1 = "filter (\<lambda>e. fst e \<notin> set ?keys) st"
  have keys: "redisKeys env st ?pre = Inr ?keys" using assms by (simp add: redisKeys_def)
  have del: "(if ?keys \<noteq> [] then redisDel env st ?keys else Inr st) = Inr ?st1"
    using assms by (auto simp: redisDel_def filter_empty_conv intro!: filter_True [symmetric])
  have st1: "fst ` set ?st1 \<subseteq> {k \<in> fst ` set st. \<not> prefix ?pre k}" by auto
  have "set (deleteDocumentFromCache env st ident) \<subseteq> set ?st1"
    unfolding deleteDocumentFromCache_def keys sum.case del
    by (auto simp: redisDel_def split: sum.splits if_splits)
  then show ?thesis using st1 by blast
qed

lemma deleteDocumentFromCache_passage_miss:
  assumes "redisUp env"
  shows "redisHGetAll env (deleteDocumentFromCache env st ident) (chunkKey ident i) = Inr None"
proof -
  have "chunkKey ident i \<notin> fst ` set (deleteDocumentFromCache env st ident)"
    using deleteDocumentFromCache_keys [OF assms, of st ident] chunkKey_prefix [of ident i]
    by blast
  then have "map_of (deleteDocumentFromCache env st ident) (chunkKey ident i) = None"
    by (simp add: map_of_eq_None_iff)
  with assms show ?thesis by (simp add: redisHGetAll_def)
qed

text \<open>The deletion run on the example world with its three cache entries.\<close>

lemma invoice_answer_without_id:
  "\<not> includesStr (stringify invoiceAnswer) ''64b7f0c2a1d3e4f5a6b7c8d9''"
  by (simp add: stringify_def invoiceAnswer_def jsonObject_def jsonField_def jsonString_def
      jsonArray_def stringifySource_def jsonNumber_def jsonEscape_def digitChar_def
      mathRound_def double_eval)

lemma invoice_passage_keys:
  "fst (invoicePassageEntry 0) = ''doc:64b7f0c2a1d3e4f5a6b7c8d9:chunk:0''"
  "fst (invoicePassageEntry (Suc 0)) = ''doc:64b7f0c2a1d3e4f5a6b7c8d9:chunk:1''"
  "fst invoiceAnswerEntry = ''answer:room1:V2hhdCBpcyB0aGUgaW52b2ljZSB0b3RhbD8=:wsfalse''"
  by (simp_all add: invoicePassageEntry_def invoiceAnswerEntry_def chunkKey_def digitChar_def)

lemma invoice_deleteFromCache:
  "deleteDocumentFromCache (exampleEnv gen)
     [invoicePassageEntry 0, invoicePassageEntry (Suc 0), invoiceAnswerEntry]
     ''64b7f0c2a1d3e4f5a6b7c8d9'' = [invoiceAnswerEntry]"
proof -
  let ?st = "[invoicePassageEntry 0, invoicePassageEntry (Suc 0), invoiceAnswerEntry]"
  let ?env = "exampleEnv gen"
  have keys: "redisKeys ?env ?st ''doc:64b7f0c2a1d3e4f5a6b7c8d9:'' =
                Inr [''doc:64b7f0c2a1d3e4f5a6b7c8d9:chunk:0'', ''doc:64b7f0c2a1d3e4f5a6b7c8d9:chunk:1'']"
    by (simp add: redisKeys_def invoice_passage_keys)
  have del: "redisDel ?env ?st
               [''doc:64b7f0c2a1d3e4f5a6b7c8d9:chunk:0'', ''doc:64b7f0c2a1d3e4f5a6b7c8d9:chunk:1''] =
             Inr [invoiceAnswerEntry]"
    by (simp add: redisDel_def invoice_passage_keys)
  have akeys: "redisKeys ?env [invoiceAnswerEntry] ''answer:'' =
                 Inr [''answer:room1:V2hhdCBpcyB0aGUgaW52b2ljZSB0b3RhbD8=:wsfalse'']"
    by (simp add: redisKeys_def invoice_passage_keys)
  have get: "redisGet ?env [invoiceAnswerEntry]
               ''answer:room1:V2hhdCBpcyB0aGUgaW52b2ljZSB0b3RhbD8=:wsfalse'' =
             Inr (Some invoiceAnswer)"
    by (simp add: redisGet_def invoiceAnswerEntry_def)
  have rel: "relatedAnswerKeys ?env [invoiceAnswerEntry] ''64b7f0c2a1d3e4f5a6b7c8d9''
               [''answer:room1:V2hhdCBpcyB0aGUgaW52b2ljZSB0b3RhbD8=:wsfalse''] = Inr []"
    by (simp add: get invoice_answer_without_id)
  show ?thesis
    by (simp add: deleteDocumentFromCache_def keys del akeys rel del: relatedAnswerKeys.simps)
qed

text \<open>
  C1. The claim is that deleting a document removes its Passage Cache entries and every
  Answer Cache entry that refers to it. The source looks for the document id in the cached
  JSON text, which holds file names and never the id. In the example the two passage
  entries go, the cached answer stays, and the next call for the same question returns
  it, citing the deleted document.
\<close>

theorem deleteDocument_keeps_cached_answer:
  "deleteDocument (exampleEnv (\<lambda>p. Inr ''The invoice total is $450.'')) invoiceCachedWorld
     ''64b7f0c2a1d3e4f5a6b7c8d9'' =
     (Inr 200, \<lparr>redis = [invoiceAnswerEntry], documents = [], generationCalls = 1\<rparr>) \<and>
   generateAnswer (exampleEnv (\<lambda>p. Inr ''The invoice total is $450.''))
     \<lparr>redis = [invoiceAnswerEntry], documents = [], generationCalls = 1\<rparr>
     ''What is the invoice total?'' ''room1'' False =
     (Inr invoiceAnswer,
      \<lparr>redis = [invoiceAnswerEntry], documents = [], generationCalls = 1\<rparr>) \<and>
   map srcFilename (sources invoiceAnswer) = [''invoice.txt'', ''invoice.txt'']"
proof -
  let ?env = "exampleEnv (\<lambda>p. Inr ''The invoice total is $450.'')"
  let ?w = "\<lparr>redis = [invoiceAnswerEntry], documents = [], generationCalls = 1\<rparr>"
  have del: "deleteDocument ?env invoiceCachedWorld ''64b7f0c2a1d3e4f5a6b7c8d9'' = (Inr 200, ?w)"
    by (simp add: deleteDocument_def invoiceCachedWorld_def invoice_deleteFromCache)
      (simp add: invoiceDoc_def)
  have "redisGet ?env (redis ?w) (answerCacheKey ''room1'' ''What is the invoice total?'' False) =
          Inr (Some invoiceAnswer)"
    by (simp add: invoice_question_key redisGet_def invoiceAnswerEntry_def)
  then have hit: "generateAnswer ?env ?w ''What is the invoice total?'' ''room1'' False =
                    (Inr invoiceAnswer, ?w)"
    by (simp add: generateAnswer_def generateAnswerBody_hit)
  have "map srcFilename (sources invoiceAnswer) = [''invoice.txt'', ''invoice.txt'']"
    by (simp add: invoiceAnswer_def)
  with del hit show ?thesis by (intro conjI)
qed

section \<open>Retriever: properties\<close>







text \<open>
  C6, amended. On the fallback path the score is \<open>0.9\<close> when the lower-cased query is a
  substring of the lower-cased chunk text; otherwise it is the number of query words
  longer than two characters that occur in the chunk, over the number of such words, times
  \<open>0.7\<close>, the words being the pieces between single space characters (\<open>NaN\<close> when there
  is no such word), raised to at least \<open>0.8\<close> for a PDF document that the query mentions.
  A fallback candidate is pushed only when its score is greater than \<open>0.1\<close>; a chunk with a
  cached text and embedding is pushed whatever its cosine similarity is.
\<close>

theorem lexical_fallback_scoring:
  "(includesStr (toLowerCase chunkTxt) (toLowerCase query) \<longrightarrow>
      fallbackSimilarity doc query chunkTxt = Num (double 0.9)) \<and>
   (\<not> includesStr (toLowerCase chunkTxt) (toLowerCase query) \<longrightarrow>
      fallbackSimilarity doc query chunkTxt =
        (let queryWords = filter (\<lambda>w. length w > 2) (split (CHR '' '') (toLowerCase query));
             matched = filter (\<lambda>w. includesStr (toLowerCase chunkTxt) w) queryWords;
             score = (if queryWords = [] then NaN
                      else Num (double (double (real (length matched) / real (length queryWords)) *
                                        double 0.7)))
         in if docFileType doc = ''.pdf'' \<and> mentionsDocument doc (toLowerCase query)
            then jsMax score (double 0.8) else score)) \<and>
   (chunkText c \<noteq> [] \<longrightarrow>
      fallbackCandidate doc query c =
        (case fallbackSimilarity doc query (chunkText c) of
           NaN \<Rightarrow> []
         | Num s \<Rightarrow>
             if s \<le> double 0.1 then []
             else [\<lparr>candText = chunkText c, candSimilarity = s, candDocId = docId doc,
                    candFilename = originalName doc, candFileType = docFileType doc\<rparr>])) \<and>
   (docFileType doc = ''.pdf'' \<or> redisHGetAll env st (chunkKey (docId doc) i) = Inr None \<longrightarrow>
      processChunk env st query doc i = fallbackCandidate doc query (docChunks doc ! i)) \<and>
   (docFileType doc \<noteq> ''.pdf'' \<and>
    redisHGetAll env st (chunkKey (docId doc) i) = Inr (Some cd) \<and> cdText cd \<noteq> [] \<longrightarrow>
      processChunk env st query doc i =
        [\<lparr>candText = cdText cd,
          candSimilarity = cosineSimilarity (generateEmbedding query) (cdEmbedding cd),
          candDocId = docId doc, candFilename = originalName doc,
          candFileType = docFileType doc\<rparr>])"
proof -
  have one: "fallbackSimilarity doc query chunkTxt = Num (double 0.9)"
    if "includesStr (toLowerCase chunkTxt) (toLowerCase query)"
    using that by (simp add: fallbackSimilarity_def lexicalSimilarity_def double_eval)
  have two: "fallbackSimilarity doc query chunkTxt =
        (let queryWords = filter (\<lambda>w. length w > 2) (split (CHR '' '') (toLowerCase query));
             matched = filter (\<lambda>w. includesStr (toLowerCase chunkTxt) w) queryWords;
             score = (if queryWords = [] then NaN
                      else Num (double (double (real (length matched) / real (length queryWords)) *
                                        double 0.7)))
         in if docFileType doc = ''.pdf'' \<and> mentionsDocument doc (toLowerCase query)
            then jsMax score (double 0.8) else score)"
    if "\<not> includesStr (toLowerCase chunkTxt) (toLowerCase query)"
    using that by (simp add: fallbackSimilarity_def lexicalSimilarity_def Let_def)
  have three: "fallbackCandidate doc query c =
        (case fallbackSimilarity doc query (chunkText c) of
           NaN \<Rightarrow> []
         | Num s \<Rightarrow>
             if s \<le> double 0.1 then []
             else [\<lparr>candText = chunkText c, candSimilarity = s, candDocId = docId doc,
                    candFilename = originalName doc, candFileType = docFileType doc\<rparr>])"
    if "chunkText c \<noteq> []"
    using that by (simp add: fallbackCandidate_def not_le split: jsNumber.splits)
  have four: "processChunk env st query doc i = fallbackCandidate doc query (docChunks doc ! i)"
    if "docFileType doc = ''.pdf'' \<or> redisHGetAll env st (chunkKey (docId doc) i) = Inr None"
    using that by (auto simp: processChunk_def)
  have five: "processChunk env st query doc i =
        [\<lparr>candText = cdText cd,
          candSimilarity = cosineSimilarity (generateEmbedding query) (cdEmbedding cd),
          candDocId = docId doc, candFilename = originalName doc,
          candFileType = docFileType doc\<rparr>]"
    if "docFileType doc \<noteq> ''.pdf'' \<and>
        redisHGetAll env st (chunkKey (docId doc) i) = Inr (Some cd) \<and> cdText cd \<noteq> []"
    using that by (simp add: processChunk_def embeddingCandidate_def)
  from one two three four five show ?thesis by blast
qed

text \<open>
  C6, as stated, has no raise for PDF documents and splits the query on white space. For
  the PDF document the query "Give me a summary" scores 0 by the stated rule and \<open>0.8\<close> in
  the source, and the chunk is kept; a query whose two words are separated by a tab scores
  \<open>0.7\<close> by the stated rule and 0 in the source.
\<close>

theorem lexical_fallback_counterexample:
  "fallbackCandidate reportDoc ''Give me a summary'' (docChunks reportDoc ! 0) =
     [\<lparr>candText = ''Quarterly revenue grew by ten percent.'', candSimilarity = double 0.8,
       candDocId = ''64b7f0c2a1d3e4f5a6b7c8da'', candFilename = ''report.pdf'',
       candFileType = ''.pdf''\<rparr>] \<and>
   claimedLexicalScore ''Give me a summary'' ''Quarterly revenue grew by ten percent.'' = Num 0 \<and>
   fallbackSimilarity invoiceDoc (''invoice'' @ [CHR 0x09] @ ''total'') ''Total due on invoice'' =
     Num 0 \<and>
   claimedLexicalScore (''invoice'' @ [CHR 0x09] @ ''total'') ''Total due on invoice'' = Num (double 0.7)"
proof -
  have a: "fallbackCandidate reportDoc ''Give me a summary'' (docChunks reportDoc ! 0) =
     [\<lparr>candText = ''Quarterly revenue grew by ten percent.'', candSimilarity = double 0.8,
       candDocId = ''64b7f0c2a1d3e4f5a6b7c8da'', candFilename = ''report.pdf'',
       candFileType = ''.pdf''\<rparr>]"
    by (simp add: fallbackCandidate_def fallbackSimilarity_def lexicalSimilarity_def
        toLowerCase_def reportDoc_def mentionsDocument_def double_eval)
  have b: "claimedLexicalScore ''Give me a summary'' ''Quarterly revenue grew by ten percent.'' =
             Num 0"
    by (simp add: claimedLexicalScore_def toLowerCase_def isWhiteSpace_def double_eval)
  have c: "fallbackSimilarity invoiceDoc (''invoice'' @ [CHR 0x09] @ ''total'')
             ''Total due on invoice'' = Num 0"
    by (simp add: fallbackSimilarity_def lexicalSimilarity_def toLowerCase_def invoiceDoc_def
        double_eval)
  have d: "claimedLexicalScore (''invoice'' @ [CHR 0x09] @ ''total'') ''Total due on invoice'' =
             Num (double 0.7)"
    by (simp add: claimedLexicalScore_def toLowerCase_def isWhiteSpace_def double_eval)
  from a b c d show ?thesis by (intro conjI)
qed


theorem lexical_fallback_scoring_witness:
  "fallbackSimilarity invoiceDoc ''invoice total'' ''The invoice total is $450.'' = Num (double 0.9) \<and>
   fallbackSimilarity invoiceDoc ''What is the invoice total?'' ''The invoice total is $450.'' =
     Num (double 0.35) \<and>
   fallbackSimilarity reportDoc ''Give me a summary'' ''Quarterly revenue grew by ten percent.'' =
     Num (double 0.8) \<and>
   fallbackCandidate invoiceDoc ''Where are my keys?'' (docChunks invoiceDoc ! 0) = [] \<and>
   processChunk (exampleEnv (\<lambda>p. Inr ''The invoice total is $450.'')) [] ''Where are my keys?''
     invoiceDoc 0 = [] \<and>
   processChunk (exampleEnv (\<lambda>p. Inr ''The invoice total is $450.'')) [invoicePassageEntry 0]
     ''Where are my keys?'' invoiceDoc 0 =
     [\<lparr>candText = ''The invoice total is $450.'',
       candSimilarity = cosineSimilarity (generateEmbedding ''Where are my keys?'')
                          (generateEmbedding ''The invoice total is $450.''),
       candDocId = ''64b7f0c2a1d3e4f5a6b7c8d9'', candFilename = ''invoice.txt'',
       candFileType = ''.txt''\<rparr>]"
proof -
  let ?env = "exampleEnv (\<lambda>p. Inr ''The invoice total is $450.'')"
  let ?chunk = "''The invoice total is $450.''"
  let ?cd = "\<lparr>cdText = ?chunk, cdEmbedding = generateEmbedding ?chunk,
              cdDocId = ''64b7f0c2a1d3e4f5a6b7c8d9'', cdFilename = ''invoice.txt''\<rparr>"
  have c0: "docChunks invoiceDoc ! 0 = \<lparr>chunkText = ?chunk, chunkIndex = 0\<rparr>"
    by (simp add: invoiceDoc_def)
  have sub: "includesStr (toLowerCase ?chunk) (toLowerCase ''invoice total'')"
    by (simp add: toLowerCase_def)
  from lexical_fallback_scoring [where chunkTxt = ?chunk and query = "''invoice total''"
      and doc = invoiceDoc] sub
  have r1: "fallbackSimilarity invoiceDoc ''invoice total'' ?chunk = Num (double 0.9)"
    by blast
  have nosub: "\<not> includesStr (toLowerCase ?chunk) (toLowerCase ''What is the invoice total?'')"
    by (simp add: toLowerCase_def)
  from lexical_fallback_scoring [where chunkTxt = ?chunk
      and query = "''What is the invoice total?''" and doc = invoiceDoc] nosub
  have "fallbackSimilarity invoiceDoc ''What is the invoice total?'' ?chunk =
        (let queryWords = filter (\<lambda>w. length w > 2)
               (split (CHR '' '') (toLowerCase ''What is the invoice total?''));
             matched = filter (\<lambda>w. includesStr (toLowerCase ?chunk) w) queryWords;
             score = (if queryWords = [] then NaN
                      else Num (double (double (real (length matched) / real (length queryWords)) *
                                        double 0.7)))
         in if docFileType invoiceDoc = ''.pdf'' \<and>
               mentionsDocument invoiceDoc (toLowerCase ''What is the invoice total?'')
            then jsMax score (double 0.8) else score)"
    by blast
  then have r2: "fallbackSimilarity invoiceDoc ''What is the invoice total?'' ?chunk =
                   Num (double 0.35)"
    by (simp add: toLowerCase_def invoiceDoc_def double_eval)
  have nosub3: "\<not> includesStr (toLowerCase ''Quarterly revenue grew by ten percent.'')
                   (toLowerCase ''Give me a summary'')"
    by (simp add: toLowerCase_def)
  from lexical_fallback_scoring [where chunkTxt = "''Quarterly revenue grew by ten percent.''"
      and query = "''Give me a summary''" and doc = reportDoc] nosub3
  have "fallbackSimilarity reportDoc ''Give me a summary''
          ''Quarterly revenue grew by ten percent.'' =
        (let queryWords = filter (\<lambda>w. length w > 2)
               (split (CHR '' '') (toLowerCase ''Give me a summary''));
             matched = filter (\<lambda>w. includesStr
               (toLowerCase ''Quarterly revenue grew by ten percent.'') w) queryWords;
             score = (if queryWords = [] then NaN
                      else Num (double (double (real (length matched) / real (length queryWords)) *
                                        double 0.7)))
         in if docFileType reportDoc = ''.pdf'' \<and>
               mentionsDocument reportDoc (toLowerCase ''Give me a summary'')
            then jsMax score (double 0.8) else score)"
    by blast
  then have r3: "fallbackSimilarity reportDoc ''Give me a summary''
                   ''Quarterly revenue grew by ten percent.'' = Num (double 0.8)"
    by (simp add: toLowerCase_def reportDoc_def mentionsDocument_def double_eval)
  have sim4: "fallbackSimilarity invoiceDoc ''Where are my keys?'' ?chunk = Num 0"
    by (simp add: fallbackSimilarity_def lexicalSimilarity_def toLowerCase_def invoiceDoc_def
        double_eval)
  have ne: "chunkText (docChunks invoiceDoc ! 0) \<noteq> []" by (simp add: c0)
  from lexical_fallback_scoring [where c = "docChunks invoiceDoc ! 0" and doc = invoiceDoc
      and query = "''Where are my keys?''"] ne
  have "fallbackCandidate invoiceDoc ''Where are my keys?'' (docChunks invoiceDoc ! 0) =
        (case fallbackSimilarity invoiceDoc ''Where are my keys?''
                (chunkText (docChunks invoiceDoc ! 0)) of
           NaN \<Rightarrow> []
         | Num s \<Rightarrow>
             if s \<le> double 0.1 then []
             else [\<lparr>candText = chunkText (docChunks invoiceDoc ! 0), candSimilarity = s,
                    candDocId = docId invoiceDoc, candFilename = originalName invoiceDoc,
                    candFileType = docFileType invoiceDoc\<rparr>])"
    by blast
  then have r4: "fallbackCandidate invoiceDoc ''Where are my keys?'' (docChunks invoiceDoc ! 0) = []"
    by (simp add: c0 sim4 double_eval)
  have miss: "redisHGetAll ?env [] (chunkKey (docId invoiceDoc) 0) = Inr None"
    by (simp add: redisHGetAll_def)
  from lexical_fallback_scoring [where doc = invoiceDoc and env = ?env and st = "[]" and i = 0
      and query = "''Where are my keys?''"] miss
  have "processChunk ?env [] ''Where are my keys?'' invoiceDoc 0 =
          fallbackCandidate invoiceDoc ''Where are my keys?'' (docChunks invoiceDoc ! 0)"
    by blast
  with r4 have r5: "processChunk ?env [] ''Where are my keys?'' invoiceDoc 0 = []" by simp
  have hit: "docFileType invoiceDoc \<noteq> ''.pdf'' \<and>
             redisHGetAll ?env [invoicePassageEntry 0] (chunkKey (docId invoiceDoc) 0) =
               Inr (Some ?cd) \<and> cdText ?cd \<noteq> []"
    by (simp add: redisHGetAll_def invoicePassageEntry_def invoiceDoc_def)
  from lexical_fallback_scoring [where doc = invoiceDoc and env = ?env
      and st = "[invoicePassageEntry 0]" and i = 0 and cd = ?cd
      and query = "''Where are my keys?''"] hit
  have "processChunk ?env [invoicePassageEntry 0] ''Where are my keys?'' invoiceDoc 0 =
        [\<lparr>candText = cdText ?cd,
          candSimilarity = cosineSimilarity (generateEmbedding ''Where are my keys?'')
                             (cdEmbedding ?cd),
          candDocId = docId invoiceDoc, candFilename = originalName invoiceDoc,
          candFileType = docFileType invoiceDoc\<rparr>]"
    by blast
  then have r6: "processChunk ?env [invoicePassageEntry 0] ''Where are my keys?'' invoiceDoc 0 =
     [\<lparr>candText = ''The invoice total is $450.'',
       candSimilarity = cosineSimilarity (generateEmbedding ''Where are my keys?'')
                          (generateEmbedding ''The invoice total is $450.''),
       candDocId = ''64b7f0c2a1d3e4f5a6b7c8d9'', candFilename = ''invoice.txt'',
       candFileType = ''.txt''\<rparr>]"
    by (simp add: invoiceDoc_def)
  from r1 r2 r3 r4 r5 r6 show ?thesis by (intro conjI)
qed


end
